theory Spec2Isabelle
  imports Main
begin

section \<open>Data model of \<open>multiqc/core/update_config.py\<close>\<close>

text \<open>
  Paths (\<open>str\<close> or \<open>pathlib.Path\<close>) are strings; \<open>str(path)\<close> and \<open>Path(s)\<close> are the
  identity on them.
\<close>

type_synonym path = string

text \<open>\<open>Union[bool, List[str]]\<close>, the type of \<open>use_filename_as_sample_name\<close>.\<close>

datatype bool_or_names = AsBool bool | AsNames "string list"

text \<open>
  \<open>Dict\<close>: an association list. \<open>Union[str, Dict]\<close>, the type of the entries of
  \<open>module_order\<close> and \<open>top_modules\<close>: a bare module name, or a dictionary from module name
  to that module's options.
\<close>

type_synonym pydict = "(string \<times> string) list"

datatype module_entry = ModName string | ModDict "(string \<times> pydict) list"

subsection \<open>The class \<open>ClConfig\<close>\<close>

record ClConfig =
  file_list :: "bool option"
  prepend_dirs :: "bool option"
  dirs_depth :: "int option"
  fn_clean_sample_names :: "bool option"
  title :: "string option"
  report_comment :: "string option"
  template :: "string option"
  require_logs :: "bool option"
  output_dir :: "path option"
  use_filename_as_sample_name :: "bool_or_names option"
  replace_names :: "string option"
  sample_names :: "string option"
  sample_filters :: "string option"
  filename :: "string option"
  make_data_dir :: "bool option"
  data_format :: "string option"
  zip_data_dir :: "bool option"
  force :: "bool option"
  ignore_symlinks :: "bool option"
  make_report :: "bool option"
  export_plots :: "bool option"
  plots_force_flat :: "bool option"
  plots_force_interactive :: "bool option"
  strict :: "bool option"
  development :: "bool option"
  make_pdf :: "bool option"
  no_megaqc_upload :: "bool option"
  quiet :: "bool option"
  verbose :: "bool option"
  no_ansi :: "bool option"
  profile_runtime :: "bool option"
  profile_memory :: "bool option"
  no_version_check :: "bool option"
  ignore :: "string list"
  ignore_samples :: "string list"
  only_samples :: "string list"
  run_modules :: "string list"
  exclude_modules :: "string list"
  config_files :: "path list"
  cl_config :: "string list"
  custom_css_files :: "string list"
  module_order :: "module_entry list"
  extra_fn_clean_exts :: "string list"
  extra_fn_clean_trim :: "string list"
  preserve_module_raw_data :: "bool option"
  data_dump_file_write_raw :: "bool option"
  ai_summary :: "bool option"
  ai_summary_full :: "bool option"
  ai_provider :: "string option"
  ai_model :: "string option"
  ai_custom_endpoint :: "string option"
  ai_custom_context_window :: "int option"
  ai_prompt_short :: "string option"
  ai_prompt_full :: "string option"
  no_ai :: "bool option"
  unknown_options :: "pydict option"
  check_config :: "bool option"

text \<open>\<open>ClConfig()\<close>: every optional field \<open>None\<close>, every list empty.\<close>

definition ClConfig_init :: ClConfig where
  "ClConfig_init = \<lparr>
     file_list = None, prepend_dirs = None, dirs_depth = None,
     fn_clean_sample_names = None, title = None, report_comment = None,
     template = None, require_logs = None, output_dir = None,
     use_filename_as_sample_name = None, replace_names = None, sample_names = None,
     sample_filters = None, filename = None, make_data_dir = None, data_format = None,
     zip_data_dir = None, force = None, ignore_symlinks = None, make_report = None,
     export_plots = None, plots_force_flat = None, plots_force_interactive = None,
     strict = None, development = None, make_pdf = None, no_megaqc_upload = None,
     quiet = None, verbose = None, no_ansi = None, profile_runtime = None,
     profile_memory = None, no_version_check = None, ignore = [], ignore_samples = [],
     only_samples = [], run_modules = [], exclude_modules = [], config_files = [],
     cl_config = [], custom_css_files = [], module_order = [], extra_fn_clean_exts = [],
     extra_fn_clean_trim = [], preserve_module_raw_data = None,
     data_dump_file_write_raw = None, ai_summary = None, ai_summary_full = None,
     ai_provider = None, ai_model = None, ai_custom_endpoint = None,
     ai_custom_context_window = None, ai_prompt_short = None, ai_prompt_full = None,
     no_ai = None, unknown_options = None, check_config = None \<rparr>"

text \<open>
  A positional argument of \<open>update_config(*analysis_dir, ...)\<close>: a path, or (the legacy
  call) a \<open>ClConfig\<close> object in first position. The tuple \<open>analysis_dir\<close> of the
  positional arguments is called \<open>dirs\<close> below, \<open>analysis_dir\<close> being the attribute of the
  configuration.
\<close>

datatype arg = PathArg path | CfgArg ClConfig

subsection \<open>The module \<open>multiqc.report\<close>\<close>

text \<open>The two attributes of the report module that \<open>update_config\<close> writes.\<close>

record report =
  top_modules :: "module_entry list"
  module_order :: "module_entry list"

subsection \<open>The module \<open>multiqc.config\<close>\<close>

text \<open>
  The attributes of the configuration module that \<open>update_config\<close> reads or writes.
  \<open>sections\<close> stands for the parts of the module that only the collaborators
  \<open>load_replace_names\<close>, \<open>load_sample_names\<close> and \<open>load_show_hide\<close> write; their layout is
  not part of this file, hence the type parameter.
\<close>

record 'x config =
  quiet :: bool
  no_ansi :: bool
  verbose :: bool
  loaded_user_files :: "path set"
  explicit_user_config_files :: "path list"
  template :: string
  title :: "string option"
  report_comment :: "string option"
  prepend_dirs :: bool
  prepend_dirs_depth :: int
  output_dir :: path
  use_filename_as_sample_name :: bool_or_names
  make_data_dir :: bool
  force :: bool
  ignore_symlinks :: bool
  zip_data_dir :: bool
  data_format :: string
  export_plots :: bool
  make_report :: bool
  plots_force_flat :: bool
  plots_force_interactive :: bool
  strict :: bool
  lint :: bool
  development :: bool
  make_pdf :: bool
  simple_output :: bool
  filename :: "string option"
  megaqc_upload :: bool
  fn_clean_sample_names :: bool
  run_modules :: "string list"
  exclude_modules :: "string list"
  require_logs :: bool
  profile_runtime :: bool
  profile_memory :: bool
  no_version_check :: bool
  custom_css_files :: "string list"
  module_order :: "module_entry list"
  top_modules :: "module_entry list"
  fn_clean_exts :: "string list"
  fn_clean_trim :: "string list"
  preserve_module_raw_data :: bool
  data_dump_file_write_raw :: bool
  ai_summary :: bool
  ai_summary_full :: bool
  ai_provider :: string
  ai_model :: "string option"
  ai_custom_endpoint :: "string option"
  ai_custom_context_window :: "int option"
  ai_prompt_short :: "string option"
  ai_prompt_full :: "string option"
  no_ai :: bool
  export_plot_formats :: "string list"
  analysis_dir :: "arg list"
  file_list :: bool
  fn_ignore_files :: "string list"
  fn_ignore_dirs :: "string list"
  fn_ignore_paths :: "string list"
  sample_names_ignore :: "string list"
  sample_names_only_include :: "string list"
  kwargs :: pydict
  sections :: 'x

subsection \<open>Process state\<close>

text \<open>
  A call that \<open>update_config\<close> makes to a collaborator. A triggered hook carries the
  configuration as the hooks find it at that moment.
\<close>

datatype 'x call =
    LoadDefaults
  | InitLog bool
  | PrintIntro
  | Trigger string "'x config"
  | FindUserFiles
  | LoadConfigFile path "bool option"
  | LoadClConfig "string list"
  | LoadReplaceNames path
  | LoadSampleNames path
  | LoadShowHide "path option"

text \<open>
  The global state \<open>update_config\<close> works on: the two modules, and the collaborator
  calls made so far, oldest first. Lists are values here: the model takes the lists that
  \<open>load_defaults\<close> and the file loaders put into the configuration to be distinct
  objects, so that extending one does not extend another.
\<close>

record 'x state =
  config :: "'x config"
  report :: report
  calls :: "'x call list"

text \<open>
  The collaborators whose code is not part of this file, as parameters.
  \<open>load_defaults\<close>, \<open>find_user_files\<close>, \<open>load_config_file\<close> and \<open>load_cl_config\<close> may
  rewrite the whole configuration. \<open>load_config_file\<close> takes \<open>is_explicit_config\<close> as
  an option, \<open>None\<close> when the call leaves it to its default.
  Modelled from the spec: \<open>load_replace_names\<close>, \<open>load_sample_names\<close> and
  \<open>load_show_hide\<close>, of which the spec says that ``each mutates dedicated Store
  sub-sections''. They read the configuration and return the new value of \<open>sections\<close>.
  \<open>realpath\<close> is \<open>os.path.realpath\<close>.
  A collaborator that raises ends the pass with its own exception, which \<open>update_config\<close>
  does not catch; the model takes the collaborators to return.
\<close>

record 'x env =
  load_defaults :: "'x config \<Rightarrow> 'x config"
  find_user_files :: "'x config \<Rightarrow> 'x config"
  load_config_file :: "path \<Rightarrow> bool option \<Rightarrow> 'x config \<Rightarrow> 'x config"
  load_cl_config :: "string list \<Rightarrow> 'x config \<Rightarrow> 'x config"
  load_replace_names :: "path \<Rightarrow> 'x config \<Rightarrow> 'x"
  load_sample_names :: "path \<Rightarrow> 'x config \<Rightarrow> 'x"
  load_show_hide :: "path option \<Rightarrow> 'x config \<Rightarrow> 'x"
  realpath :: "path \<Rightarrow> path"

datatype error = RunError string

section \<open>The function \<open>update_config\<close>\<close>

subsection \<open>Statements\<close>

text \<open>
  A block of statements is a list of state transformers, run in order.
\<close>

fun run :: "('s \<Rightarrow> 's) list \<Rightarrow> 's \<Rightarrow> 's" where
  "run [] s = s"
| "run (stmt # stmts) s = run stmts (stmt s)"

text \<open>\<open>if v is not None: body\<close>, where the body may use the value of \<open>v\<close>.\<close>

definition if_set :: "'a option \<Rightarrow> ('a \<Rightarrow> 's \<Rightarrow> 's) \<Rightarrow> 's \<Rightarrow> 's" where
  "if_set v body s = (case v of None \<Rightarrow> s | Some x \<Rightarrow> body x s)"

text \<open>
  \<open>if v: body\<close> for an optional \<open>v\<close>: Python takes \<open>None\<close> as false, and a value by its
  own truth value, given here by \<open>truth\<close>.
\<close>

definition if_truthy :: "('a \<Rightarrow> bool) \<Rightarrow> 'a option \<Rightarrow> ('a \<Rightarrow> 's \<Rightarrow> 's) \<Rightarrow> 's \<Rightarrow> 's" where
  "if_truthy truth v body s =
     (case v of None \<Rightarrow> s | Some x \<Rightarrow> if truth x then body x s else s)"

text \<open>\<open>if cond: body\<close>, where the condition may read the state.\<close>

definition if_cond :: "('s \<Rightarrow> bool) \<Rightarrow> ('s \<Rightarrow> 's) \<Rightarrow> 's \<Rightarrow> 's" where
  "if_cond cond body s = (if cond s then body s else s)"

text \<open>Truth values of Python: a \<open>bool\<close> is itself, a string, list or dictionary is true when not empty.\<close>

definition bool_truth :: "bool \<Rightarrow> bool" where
  "bool_truth b = b"

definition nonempty :: "'a list \<Rightarrow> bool" where
  "nonempty xs = (xs \<noteq> [])"

subsection \<open>Statements on the process state\<close>

definition on_config :: "('x config \<Rightarrow> 'x config) \<Rightarrow> 'x state \<Rightarrow> 'x state" where
  "on_config f w = w\<lparr>config := f (config w)\<rparr>"

definition emit :: "'x call \<Rightarrow> 'x state \<Rightarrow> 'x state" where
  "emit c w = w\<lparr>calls := calls w @ [c]\<rparr>"

text \<open>A call of a collaborator that rewrites the configuration.\<close>

definition invoke :: "'x call \<Rightarrow> ('x config \<Rightarrow> 'x config) \<Rightarrow> 'x state \<Rightarrow> 'x state" where
  "invoke c f w = on_config f (emit c w)"

text \<open>
  Modelled from the spec: \<open>plugin_hooks.mqc_trigger\<close>, whose code is not part of this
  file. The spec has the configuration ``mutated exclusively by the Resolution Engine and
  the Source Loader during a pass'' and the listeners ``invoked with event name only, no
  payload, no return value consumed'': triggering a hook leaves the configuration as it
  is, and the model records the call, with the configuration that the hooks find.
\<close>

definition mqc_trigger :: "string \<Rightarrow> 'x state \<Rightarrow> 'x state" where
  "mqc_trigger name w = emit (Trigger name (config w)) w"

text \<open>
  Modelled from the spec: \<open>log_and_rich.init_log\<close>, whose code is not part of this file.
  By the same sentence of the spec it leaves the configuration as it is; the model
  records the call. The messages that \<open>update_config\<close> sends to \<open>logger\<close> are not
  modelled.
\<close>

definition init_log :: "bool \<Rightarrow> 'x state \<Rightarrow> 'x state" where
  "init_log log_to_file w = emit (InitLog log_to_file) w"

text \<open>
  Modelled from the spec: the callback \<open>print_intro_fn\<close> of the caller, ``an optional
  introductory-banner callback invoked once logging is ready''. It leaves the
  configuration as it is; the model records the call.
\<close>

definition print_intro :: "'x state \<Rightarrow> 'x state" where
  "print_intro w = emit PrintIntro w"

subsection \<open>Lines 92 to 94: the override record in use\<close>

text \<open>
  \<open>cfg\<close> when given; else the first positional argument when it is a \<open>ClConfig\<close>;
  else \<open>ClConfig()\<close>. A \<open>ClConfig\<close> object is true in Python, so \<open>cfg or ClConfig()\<close>
  replaces \<open>None\<close> only. The positional argument stays in \<open>analysis_dir\<close>.
\<close>

fun cfg_in_use :: "arg list \<Rightarrow> ClConfig option \<Rightarrow> ClConfig" where
  "cfg_in_use dirs (Some cfg) = cfg"
| "cfg_in_use (CfgArg cfg # rest) None = cfg"
| "cfg_in_use dirs None = ClConfig_init"

subsection \<open>Lines 96 to 102: reset logger\<close>

text \<open>\<open>cfg.verbose > 0\<close> compares a \<open>bool\<close> with 0: \<open>True\<close> counts as 1, \<open>False\<close> as 0.\<close>

definition reset_logger :: "ClConfig \<Rightarrow> 'x config \<Rightarrow> 'x config" where
  "reset_logger cfg = run
     [ if_set (ClConfig.quiet cfg) (\<lambda>v c. c\<lparr>quiet := v\<rparr>),
       if_set (ClConfig.no_ansi cfg) (\<lambda>v c. c\<lparr>no_ansi := v\<rparr>),
       if_set (ClConfig.verbose cfg) (\<lambda>v c. c\<lparr>verbose := ((of_bool v :: int) > 0)\<rparr>) ]"

subsection \<open>Lines 89 to 129: defaults, logging and configuration files\<close>

text \<open>
  The loop over \<open>config.explicit_user_config_files\<close> runs over the files listed when the
  loop starts.
\<close>

definition reload_explicit :: "'x env \<Rightarrow> 'x state \<Rightarrow> 'x state" where
  "reload_explicit env w =
     run (map (\<lambda>p. invoke (LoadConfigFile p None) (load_config_file env p None))
              (explicit_user_config_files (config w))) w"

definition load_session_files :: "'x env \<Rightarrow> ClConfig \<Rightarrow> 'x state \<Rightarrow> 'x state" where
  "load_session_files env cfg =
     run (map (\<lambda>p. invoke (LoadConfigFile p (Some False)) (load_config_file env p (Some False)))
              (ClConfig.config_files cfg))"

definition load_phase ::
  "'x env \<Rightarrow> ClConfig \<Rightarrow> bool \<Rightarrow> unit option \<Rightarrow> 'x state \<Rightarrow> 'x state" where
  "load_phase env cfg log_to_file print_intro_fn = run
     [ invoke LoadDefaults (load_defaults env),
       on_config (reset_logger cfg),
       init_log log_to_file,
       if_set print_intro_fn (\<lambda>_. print_intro),
       mqc_trigger ''before_config'',
       on_config (\<lambda>c. c\<lparr>loaded_user_files := {}\<rparr>),
       invoke FindUserFiles (find_user_files env),
       reload_explicit env,
       load_session_files env cfg,
       if_cond (\<lambda>_. length (ClConfig.cl_config cfg) > 0)
         (invoke (LoadClConfig (ClConfig.cl_config cfg)) (load_cl_config env (ClConfig.cl_config cfg))) ]"

subsection \<open>Lines 131 to 186: key variables, first part\<close>

definition key_variables :: "'x env \<Rightarrow> ClConfig \<Rightarrow> 'x config \<Rightarrow> 'x config" where
  "key_variables env cfg = run
     [ if_set (ClConfig.template cfg) (\<lambda>v c. c\<lparr>template := v\<rparr>),
       if_set (ClConfig.title cfg) (\<lambda>v c. c\<lparr>title := Some v\<rparr>),
       if_set (ClConfig.report_comment cfg) (\<lambda>v c. c\<lparr>report_comment := Some v\<rparr>),
       if_set (ClConfig.prepend_dirs cfg) (\<lambda>v c. c\<lparr>prepend_dirs := v\<rparr>),
       if_set (ClConfig.dirs_depth cfg) (\<lambda>v c. c\<lparr>prepend_dirs := True, prepend_dirs_depth := v\<rparr>),
       if_set (ClConfig.output_dir cfg) (\<lambda>v c. c\<lparr>output_dir := realpath env v\<rparr>),
       if_set (ClConfig.use_filename_as_sample_name cfg)
         (\<lambda>v c. c\<lparr>use_filename_as_sample_name := v\<rparr>),
       if_set (ClConfig.make_data_dir cfg) (\<lambda>v c. c\<lparr>make_data_dir := v\<rparr>),
       if_set (ClConfig.force cfg) (\<lambda>v c. c\<lparr>force := v\<rparr>),
       if_set (ClConfig.ignore_symlinks cfg) (\<lambda>v c. c\<lparr>ignore_symlinks := v\<rparr>),
       if_set (ClConfig.zip_data_dir cfg) (\<lambda>v c. c\<lparr>zip_data_dir := v\<rparr>),
       if_set (ClConfig.data_format cfg) (\<lambda>v c. c\<lparr>data_format := v\<rparr>),
       if_set (ClConfig.export_plots cfg) (\<lambda>v c. c\<lparr>export_plots := v\<rparr>),
       if_set (ClConfig.make_report cfg) (\<lambda>v c. c\<lparr>make_report := v\<rparr>),
       if_set (ClConfig.plots_force_flat cfg) (\<lambda>v c. c\<lparr>plots_force_flat := v\<rparr>),
       if_set (ClConfig.plots_force_interactive cfg) (\<lambda>v c. c\<lparr>plots_force_interactive := v\<rparr>),
       if_set (ClConfig.strict cfg) (\<lambda>v c. c\<lparr>strict := v, lint := v\<rparr>),
       if_set (ClConfig.development cfg) (\<lambda>v c. c\<lparr>development := v\<rparr>),
       if_truthy bool_truth (ClConfig.make_pdf cfg)
         (\<lambda>v c. c\<lparr>make_pdf := v, template := ''simple''\<rparr>),
       if_cond (\<lambda>c. template c = ''simple'')
         (\<lambda>c. c\<lparr>plots_force_flat := True, simple_output := True\<rparr>),
       if_truthy nonempty (ClConfig.filename cfg) (\<lambda>v c. c\<lparr>filename := Some v\<rparr>),
       if_set (ClConfig.no_megaqc_upload cfg) (\<lambda>v c. c\<lparr>megaqc_upload := (\<not> v)\<rparr>),
       if_set (ClConfig.fn_clean_sample_names cfg) (\<lambda>v c. c\<lparr>fn_clean_sample_names := v\<rparr>) ]"

subsection \<open>Lines 187 to 191: sample name files\<close>

text \<open>
  \<open>load_show_hide\<close> is called in every pass, with the path of \<open>cfg.sample_filters\<close> when
  that is a non-empty string and with \<open>None\<close> otherwise.
\<close>

definition show_hide_file :: "ClConfig \<Rightarrow> path option" where
  "show_hide_file cfg =
     (case ClConfig.sample_filters cfg of
        None \<Rightarrow> None
      | Some p \<Rightarrow> if nonempty p then Some p else None)"

definition sample_name_files :: "'x env \<Rightarrow> ClConfig \<Rightarrow> 'x state \<Rightarrow> 'x state" where
  "sample_name_files env cfg = run
     [ if_truthy nonempty (ClConfig.replace_names cfg)
         (\<lambda>p. invoke (LoadReplaceNames p) (\<lambda>c. c\<lparr>sections := load_replace_names env p c\<rparr>)),
       if_truthy nonempty (ClConfig.sample_names cfg)
         (\<lambda>p. invoke (LoadSampleNames p) (\<lambda>c. c\<lparr>sections := load_sample_names env p c\<rparr>)),
       invoke (LoadShowHide (show_hide_file cfg))
         (\<lambda>c. c\<lparr>sections := load_show_hide env (show_hide_file cfg) c\<rparr>) ]"

subsection \<open>Lines 192 to 234: key variables, second part\<close>

definition more_variables :: "ClConfig \<Rightarrow> 'x config \<Rightarrow> 'x config" where
  "more_variables cfg = run
     [ if_cond (\<lambda>_. length (ClConfig.run_modules cfg) > 0)
         (\<lambda>c. c\<lparr>run_modules := ClConfig.run_modules cfg\<rparr>),
       if_cond (\<lambda>_. length (ClConfig.exclude_modules cfg) > 0)
         (\<lambda>c. c\<lparr>exclude_modules := ClConfig.exclude_modules cfg\<rparr>),
       if_set (ClConfig.require_logs cfg) (\<lambda>v c. c\<lparr>require_logs := v\<rparr>),
       if_set (ClConfig.profile_runtime cfg) (\<lambda>v c. c\<lparr>profile_runtime := v\<rparr>),
       if_set (ClConfig.profile_memory cfg) (\<lambda>v c. c\<lparr>profile_runtime := v, profile_memory := v\<rparr>),
       if_set (ClConfig.no_version_check cfg) (\<lambda>v c. c\<lparr>no_version_check := v\<rparr>),
       if_cond (\<lambda>_. nonempty (ClConfig.custom_css_files cfg))
         (\<lambda>c. c\<lparr>custom_css_files := custom_css_files c @ ClConfig.custom_css_files cfg\<rparr>),
       if_cond (\<lambda>_. nonempty (ClConfig.module_order cfg))
         (\<lambda>c. c\<lparr>module_order := ClConfig.module_order cfg\<rparr>),
       if_cond (\<lambda>_. nonempty (ClConfig.extra_fn_clean_exts cfg))
         (\<lambda>c. c\<lparr>fn_clean_exts := ClConfig.extra_fn_clean_exts cfg @ fn_clean_exts c\<rparr>),
       if_cond (\<lambda>_. nonempty (ClConfig.extra_fn_clean_trim cfg))
         (\<lambda>c. c\<lparr>fn_clean_trim := ClConfig.extra_fn_clean_trim cfg @ fn_clean_trim c\<rparr>),
       if_set (ClConfig.preserve_module_raw_data cfg) (\<lambda>v c. c\<lparr>preserve_module_raw_data := v\<rparr>),
       if_set (ClConfig.data_dump_file_write_raw cfg) (\<lambda>v c. c\<lparr>data_dump_file_write_raw := v\<rparr>),
       if_set (ClConfig.ai_summary cfg) (\<lambda>v c. c\<lparr>ai_summary := v\<rparr>),
       if_set (ClConfig.ai_summary_full cfg) (\<lambda>v c. c\<lparr>ai_summary := v, ai_summary_full := v\<rparr>),
       if_set (ClConfig.ai_provider cfg) (\<lambda>v c. c\<lparr>ai_provider := v\<rparr>),
       if_set (ClConfig.ai_model cfg) (\<lambda>v c. c\<lparr>ai_model := Some v\<rparr>),
       if_set (ClConfig.ai_custom_endpoint cfg) (\<lambda>v c. c\<lparr>ai_custom_endpoint := Some v\<rparr>),
       if_set (ClConfig.ai_custom_context_window cfg)
         (\<lambda>v c. c\<lparr>ai_custom_context_window := Some v\<rparr>),
       if_set (ClConfig.ai_prompt_short cfg) (\<lambda>v c. c\<lparr>ai_prompt_short := Some v\<rparr>),
       if_set (ClConfig.ai_prompt_full cfg) (\<lambda>v c. c\<lparr>ai_prompt_full := Some v\<rparr>),
       if_set (ClConfig.no_ai cfg) (\<lambda>v c. c\<lparr>no_ai := v\<rparr>) ]"

subsection \<open>Lines 236 to 241: plot format of development mode, analysis directories\<close>

definition development_png :: "'x config \<Rightarrow> 'x config" where
  "development_png =
     if_cond (\<lambda>c. development c \<and> ''png'' \<notin> set (export_plot_formats c))
       (\<lambda>c. c\<lparr>export_plot_formats := export_plot_formats c @ [''png'']\<rparr>)"

definition set_analysis_dir :: "arg list \<Rightarrow> 'x config \<Rightarrow> 'x config" where
  "set_analysis_dir dirs =
     if_cond (\<lambda>_. dirs \<noteq> [])
       (\<lambda>c. c\<lparr>analysis_dir := map (\<lambda>p. p) dirs\<rparr>)"

subsection \<open>Lines 247 to 263: ignore patterns, module lists, unknown options\<close>

definition extend_ignores :: "ClConfig \<Rightarrow> 'x config \<Rightarrow> 'x config" where
  "extend_ignores cfg = run
     [ if_cond (\<lambda>_. length (ClConfig.ignore cfg) > 0)
         (\<lambda>c. c\<lparr>fn_ignore_files := fn_ignore_files c @ ClConfig.ignore cfg,
                fn_ignore_dirs := fn_ignore_dirs c @ ClConfig.ignore cfg,
                fn_ignore_paths := fn_ignore_paths c @ ClConfig.ignore cfg\<rparr>),
       if_cond (\<lambda>_. length (ClConfig.ignore_samples cfg) > 0)
         (\<lambda>c. c\<lparr>sample_names_ignore := sample_names_ignore c @ ClConfig.ignore_samples cfg\<rparr>),
       if_cond (\<lambda>_. length (ClConfig.only_samples cfg) > 0)
         (\<lambda>c. c\<lparr>sample_names_only_include :=
                  sample_names_only_include c @ ClConfig.only_samples cfg\<rparr>) ]"

text \<open>\<open>m if isinstance(m, dict) else {m: {}}\<close>\<close>

fun as_dict :: "module_entry \<Rightarrow> module_entry" where
  "as_dict (ModDict d) = ModDict d"
| "as_dict (ModName m) = ModDict [(m, [])]"

definition prep_module_configs :: "'x state \<Rightarrow> 'x state" where
  "prep_module_configs w =
     w\<lparr>report := (report w)\<lparr>
          report.top_modules := map as_dict (top_modules (config w)),
          report.module_order := map as_dict (module_order (config w))\<rparr>\<rparr>"

definition plug_in_options :: "ClConfig \<Rightarrow> 'x config \<Rightarrow> 'x config" where
  "plug_in_options cfg =
     if_truthy nonempty (ClConfig.unknown_options cfg) (\<lambda>v c. c\<lparr>kwargs := v\<rparr>)"

subsection \<open>The whole function\<close>

text \<open>Everything up to line 241, the statement before the check of \<open>file_list\<close>.\<close>

definition before_check ::
  "'x env \<Rightarrow> arg list \<Rightarrow> ClConfig \<Rightarrow> bool \<Rightarrow> unit option \<Rightarrow> 'x state \<Rightarrow> 'x state" where
  "before_check env dirs cfg log_to_file print_intro_fn = run
     [ load_phase env cfg log_to_file print_intro_fn,
       on_config (key_variables env cfg),
       sample_name_files env cfg,
       on_config (more_variables cfg),
       on_config development_png,
       on_config (set_analysis_dir dirs) ]"

text \<open>Everything from line 247 on.\<close>

definition after_check :: "ClConfig \<Rightarrow> 'x state \<Rightarrow> 'x state" where
  "after_check cfg = run
     [ on_config (extend_ignores cfg),
       prep_module_configs,
       on_config (plug_in_options cfg),
       mqc_trigger ''config_loaded'',
       mqc_trigger ''execution_start'' ]"

text \<open>
  Lines 242 to 245 raise \<open>RunError\<close>; the state then stays as the statements before left
  it, so the error comes with that state.
\<close>

definition file_list_message :: string where
  "file_list_message = ''If --file-list is given, analysis_dir should have only one plain text file.''"

definition check_file_list :: "ClConfig \<Rightarrow> 'x state \<Rightarrow> (error \<times> 'x state) + 'x state" where
  "check_file_list cfg w =
     (case ClConfig.file_list cfg of
        None \<Rightarrow> Inr w
      | Some v \<Rightarrow>
          if length (analysis_dir (config w)) > 1 then Inl (RunError file_list_message, w)
          else Inr (on_config (\<lambda>c. c\<lparr>file_list := v\<rparr>) w))"

definition update_config ::
  "'x env \<Rightarrow> arg list \<Rightarrow> ClConfig option \<Rightarrow> bool \<Rightarrow> unit option \<Rightarrow> 'x state
     \<Rightarrow> (error \<times> 'x state) + 'x state" where
  "update_config env dirs cfg log_to_file print_intro_fn w =
     (let cfg = cfg_in_use dirs cfg in
      case check_file_list cfg (before_check env dirs cfg log_to_file print_intro_fn w) of
        Inl raised \<Rightarrow> Inl raised
      | Inr w' \<Rightarrow> Inr (after_check cfg w'))"

text \<open>The state a call leaves behind, whether it returned or raised.\<close>

fun state_after :: "(error \<times> 'x state) + 'x state \<Rightarrow> 'x state" where
  "state_after (Inl (e, w)) = w"
| "state_after (Inr w) = w"

fun raised :: "(error \<times> 'x state) + 'x state \<Rightarrow> bool" where
  "raised (Inl _) = True"
| "raised (Inr _) = False"

section \<open>The configuration a pass computes\<close>

text \<open>
  The hooks, the logging and the introduction leave the configuration alone, so what a
  pass does to the configuration can be written without the list of calls. The functions
  of this section do that; \<open>config_load_phase\<close>, \<open>config_sample_name_files\<close> and
  \<open>config_before_check\<close> are proved below to be the configuration that \<open>load_phase\<close>,
  \<open>sample_name_files\<close> and \<open>before_check\<close> leave. \<open>config_at_hook\<close> is the configuration
  when \<open>before_config\<close> is triggered, \<open>config_found\<close> the one that \<open>find_user_files\<close>
  leaves.
\<close>

definition config_at_hook :: "'x env \<Rightarrow> ClConfig \<Rightarrow> 'x config \<Rightarrow> 'x config" where
  "config_at_hook env cfg = run [ load_defaults env, reset_logger cfg ]"

definition config_found :: "'x env \<Rightarrow> ClConfig \<Rightarrow> 'x config \<Rightarrow> 'x config" where
  "config_found env cfg = run
     [ config_at_hook env cfg,
       (\<lambda>c. c\<lparr>loaded_user_files := {}\<rparr>),
       find_user_files env ]"

definition config_load_phase :: "'x env \<Rightarrow> ClConfig \<Rightarrow> 'x config \<Rightarrow> 'x config" where
  "config_load_phase env cfg = run
     [ config_found env cfg,
       (\<lambda>c. run (map (\<lambda>p. load_config_file env p None) (explicit_user_config_files c)) c),
       run (map (\<lambda>p. load_config_file env p (Some False)) (ClConfig.config_files cfg)),
       if_cond (\<lambda>_. length (ClConfig.cl_config cfg) > 0)
         (load_cl_config env (ClConfig.cl_config cfg)) ]"

definition config_sample_name_files :: "'x env \<Rightarrow> ClConfig \<Rightarrow> 'x config \<Rightarrow> 'x config" where
  "config_sample_name_files env cfg = run
     [ if_truthy nonempty (ClConfig.replace_names cfg)
         (\<lambda>p c. c\<lparr>sections := load_replace_names env p c\<rparr>),
       if_truthy nonempty (ClConfig.sample_names cfg)
         (\<lambda>p c. c\<lparr>sections := load_sample_names env p c\<rparr>),
       (\<lambda>c. c\<lparr>sections := load_show_hide env (show_hide_file cfg) c\<rparr>) ]"

text \<open>From the loaded configuration to the one that the check of \<open>file_list\<close> finds.\<close>

definition overrides :: "'x env \<Rightarrow> arg list \<Rightarrow> ClConfig \<Rightarrow> 'x config \<Rightarrow> 'x config" where
  "overrides env dirs cfg = run
     [ key_variables env cfg,
       config_sample_name_files env cfg,
       more_variables cfg,
       development_png,
       set_analysis_dir dirs ]"

definition config_before_check :: "'x env \<Rightarrow> arg list \<Rightarrow> ClConfig \<Rightarrow> 'x config \<Rightarrow> 'x config" where
  "config_before_check env dirs cfg c = overrides env dirs cfg (config_load_phase env cfg c)"

text \<open>What lines 245 to 263 do to the configuration when the check lets the pass go on.\<close>

definition config_after_check :: "ClConfig \<Rightarrow> 'x config \<Rightarrow> 'x config" where
  "config_after_check cfg = run
     [ if_set (ClConfig.file_list cfg) (\<lambda>v c. c\<lparr>file_list := v\<rparr>),
       extend_ignores cfg,
       plug_in_options cfg ]"

text \<open>The condition of lines 242 and 243 under which the pass raises.\<close>

definition too_many_dirs :: "ClConfig \<Rightarrow> 'x config \<Rightarrow> bool" where
  "too_many_dirs cfg c \<longleftrightarrow> ClConfig.file_list cfg \<noteq> None \<and> length (analysis_dir c) > 1"

text \<open>
  Values that the statements assign: \<open>assign v old\<close> is what an attribute holds after
  \<open>if v is not None: attribute = v\<close> when it held \<open>old\<close> before; \<open>truthy\<close> keeps a value
  that Python takes as true; \<open>given b x\<close> is \<open>x\<close> under the condition \<open>b\<close>.
\<close>

definition assign :: "'a option \<Rightarrow> 'a \<Rightarrow> 'a" where
  "assign v old = (case v of None \<Rightarrow> old | Some x \<Rightarrow> x)"

definition truthy :: "('a \<Rightarrow> bool) \<Rightarrow> 'a option \<Rightarrow> 'a option" where
  "truthy truth v = (case v of None \<Rightarrow> None | Some x \<Rightarrow> if truth x then Some x else None)"

definition given :: "bool \<Rightarrow> 'a \<Rightarrow> 'a option" where
  "given b x = (if b then Some x else None)"

text \<open>The configuration that a whole pass leaves, whether it returns or raises.\<close>

definition config_pass :: "'x env \<Rightarrow> arg list \<Rightarrow> ClConfig \<Rightarrow> 'x config \<Rightarrow> 'x config" where
  "config_pass env dirs cfg c =
     (let c' = config_before_check env dirs cfg c
      in if too_many_dirs cfg c' then c' else config_after_check cfg c')"

text \<open>The calls of a pass, in order, from the configuration the pass starts with.\<close>

definition optional_call :: "'a option \<Rightarrow> ('a \<Rightarrow> 'x call) \<Rightarrow> 'x call list" where
  "optional_call v c = (case v of None \<Rightarrow> [] | Some x \<Rightarrow> [c x])"

definition load_calls :: "'x env \<Rightarrow> ClConfig \<Rightarrow> bool \<Rightarrow> unit option \<Rightarrow> 'x config \<Rightarrow> 'x call list" where
  "load_calls env cfg log_to_file print_intro_fn c =
     [LoadDefaults, InitLog log_to_file] @
     optional_call print_intro_fn (\<lambda>_. PrintIntro) @
     [Trigger ''before_config'' (config_at_hook env cfg c), FindUserFiles] @
     map (\<lambda>p. LoadConfigFile p None) (explicit_user_config_files (config_found env cfg c)) @
     map (\<lambda>p. LoadConfigFile p (Some False)) (ClConfig.config_files cfg) @
     optional_call (given (length (ClConfig.cl_config cfg) > 0) (ClConfig.cl_config cfg)) LoadClConfig"

definition sample_calls :: "ClConfig \<Rightarrow> 'x call list" where
  "sample_calls cfg =
     optional_call (truthy nonempty (ClConfig.replace_names cfg)) LoadReplaceNames @
     optional_call (truthy nonempty (ClConfig.sample_names cfg)) LoadSampleNames @
     [LoadShowHide (show_hide_file cfg)]"

text \<open>
  Modelled from the spec: \<open>config.load_defaults\<close>, whose code is not part of this file. The
  spec has the Store ``reset to built-in defaults at the start of every resolution
  pass'': with \<open>reset_to defaults env\<close>, \<open>load_defaults\<close> returns the built-in defaults
  whatever the configuration was, the lists among them as new objects.
\<close>

definition reset_to :: "'x config \<Rightarrow> 'x env \<Rightarrow> 'x env" where
  "reset_to defaults env = env\<lparr>load_defaults := (\<lambda>_. defaults)\<rparr>"

section \<open>An example to run the model on\<close>

text \<open>
  The built-in defaults of MultiQC and the files of a user are not part of this file.
  The examples below run the model with the following configuration as the defaults,
  with no configuration file found or loaded, and with \<open>os.path.realpath\<close> leaving
  its argument as it is.
\<close>

definition example_config :: "unit config" where
  "example_config = \<lparr>
     quiet = False, no_ansi = False, verbose = False, loaded_user_files = {},
     explicit_user_config_files = [], template = ''default'', title = None,
     report_comment = None, prepend_dirs = False, prepend_dirs_depth = 0,
     output_dir = ''/work'', use_filename_as_sample_name = AsBool False,
     make_data_dir = True, force = False, ignore_symlinks = False, zip_data_dir = False,
     data_format = ''tsv'', export_plots = False, make_report = True,
     plots_force_flat = False, plots_force_interactive = False, strict = False,
     lint = False, development = False, make_pdf = False, simple_output = False,
     filename = Some ''multiqc_report.html'', megaqc_upload = False,
     fn_clean_sample_names = True, run_modules = [], exclude_modules = [],
     require_logs = False, profile_runtime = False, profile_memory = False,
     no_version_check = False, custom_css_files = [], module_order = [ModName ''fastqc''],
     top_modules = [], fn_clean_exts = [''.gz''], fn_clean_trim = [''.''],
     preserve_module_raw_data = False, data_dump_file_write_raw = False,
     ai_summary = False, ai_summary_full = False, ai_provider = ''seqera'', ai_model = None,
     ai_custom_endpoint = None, ai_custom_context_window = None, ai_prompt_short = None,
     ai_prompt_full = None, no_ai = False, export_plot_formats = [''pdf'', ''svg''],
     analysis_dir = [], file_list = False, fn_ignore_files = [''*.bak''],
     fn_ignore_dirs = [''*.bak''], fn_ignore_paths = [''*.bak''], sample_names_ignore = [],
     sample_names_only_include = [], kwargs = [], sections = () \<rparr>"

definition example_env :: "unit env" where
  "example_env = \<lparr>
     load_defaults = (\<lambda>_. example_config),
     find_user_files = (\<lambda>c. c),
     load_config_file = (\<lambda>_ _ c. c),
     load_cl_config = (\<lambda>_ c. c),
     load_replace_names = (\<lambda>_ _. ()),
     load_sample_names = (\<lambda>_ _. ()),
     load_show_hide = (\<lambda>_ _. ()),
     realpath = (\<lambda>p. p) \<rparr>"

definition example_state :: "unit state" where
  "example_state = \<lparr>
     config = example_config,
     report = \<lparr> report.top_modules = [], report.module_order = [] \<rparr>,
     calls = [] \<rparr>"

text \<open>Override records for the examples; what an example does not mention is unset.\<close>

definition depth_cfg :: ClConfig where
  "depth_cfg = ClConfig_init\<lparr>ClConfig.prepend_dirs := Some False, ClConfig.dirs_depth := Some 2\<rparr>"

definition pdf_cfg :: ClConfig where
  "pdf_cfg = ClConfig_init\<lparr>ClConfig.make_pdf := Some True\<rparr>"

definition simple_cfg :: ClConfig where
  "simple_cfg = ClConfig_init\<lparr>ClConfig.template := Some ''simple''\<rparr>"

definition ai_full_on_cfg :: ClConfig where
  "ai_full_on_cfg = ClConfig_init\<lparr>ClConfig.ai_summary_full := Some True\<rparr>"

definition ai_full_off_cfg :: ClConfig where
  "ai_full_off_cfg =
     ClConfig_init\<lparr>ClConfig.ai_summary := Some True, ClConfig.ai_summary_full := Some False\<rparr>"

definition memory_on_cfg :: ClConfig where
  "memory_on_cfg = ClConfig_init\<lparr>ClConfig.profile_memory := Some True\<rparr>"

definition memory_off_cfg :: ClConfig where
  "memory_off_cfg =
     ClConfig_init\<lparr>ClConfig.profile_runtime := Some True, ClConfig.profile_memory := Some False\<rparr>"

definition ignore_cfg :: ClConfig where
  "ignore_cfg = ClConfig_init\<lparr>ClConfig.ignore := [''*.tmp'']\<rparr>"

definition development_cfg :: ClConfig where
  "development_cfg = ClConfig_init\<lparr>ClConfig.development := Some True\<rparr>"

definition file_list_cfg :: ClConfig where
  "file_list_cfg = ClConfig_init\<lparr>ClConfig.file_list := Some True\<rparr>"





definition file_list_off_cfg :: ClConfig where
  "file_list_off_cfg = ClConfig_init\<lparr>ClConfig.file_list := Some False\<rparr>"


section \<open>Statements, field by field\<close>

lemma assign_simps:
  "assign None old = old"
  "assign (Some x) old = x"
  by (simp_all add: assign_def)

lemma truthy_simps:
  "truthy truth None = None"
  "truthy truth (Some x) = (if truth x then Some x else None)"
  by (simp_all add: truthy_def)

lemma assign_given: "assign (map_option g (given b x)) old = (if b then g x else old)"
  by (simp add: assign_def given_def)

lemma if_truthy_if_set: "if_truthy truth v body = if_set (truthy truth v) body"
  by (rule ext) (simp add: if_truthy_def if_set_def truthy_def split: option.split)

lemma if_cond_if_set: "if_cond (\<lambda>_. b) body = if_set (given b ()) (\<lambda>_. body)"
  by (rule ext) (simp add: if_cond_def if_set_def given_def)

lemma if_set_kept: "(\<And>x c. sel (body x c) = sel c) \<Longrightarrow> sel (if_set v body c) = sel c"
  by (simp add: if_set_def split: option.split)

lemma if_cond_kept: "(\<And>c. sel (body c) = sel c) \<Longrightarrow> sel (if_cond cond body c) = sel c"
  by (simp add: if_cond_def)

lemmas if_set_keeps =
  if_set_kept[of quiet] if_set_kept[of no_ansi] if_set_kept[of verbose]
  if_set_kept[of loaded_user_files] if_set_kept[of explicit_user_config_files]
  if_set_kept[of template] if_set_kept[of title] if_set_kept[of report_comment]
  if_set_kept[of prepend_dirs] if_set_kept[of prepend_dirs_depth]
  if_set_kept[of output_dir] if_set_kept[of use_filename_as_sample_name]
  if_set_kept[of make_data_dir] if_set_kept[of force] if_set_kept[of ignore_symlinks]
  if_set_kept[of zip_data_dir] if_set_kept[of data_format] if_set_kept[of export_plots]
  if_set_kept[of make_report] if_set_kept[of plots_force_flat]
  if_set_kept[of plots_force_interactive] if_set_kept[of strict] if_set_kept[of lint]
  if_set_kept[of development] if_set_kept[of make_pdf] if_set_kept[of simple_output]
  if_set_kept[of filename] if_set_kept[of megaqc_upload]
  if_set_kept[of fn_clean_sample_names] if_set_kept[of run_modules]
  if_set_kept[of exclude_modules] if_set_kept[of require_logs]
  if_set_kept[of profile_runtime] if_set_kept[of profile_memory]
  if_set_kept[of no_version_check] if_set_kept[of custom_css_files]
  if_set_kept[of module_order] if_set_kept[of top_modules] if_set_kept[of fn_clean_exts]
  if_set_kept[of fn_clean_trim] if_set_kept[of preserve_module_raw_data]
  if_set_kept[of data_dump_file_write_raw] if_set_kept[of ai_summary]
  if_set_kept[of ai_summary_full] if_set_kept[of ai_provider] if_set_kept[of ai_model]
  if_set_kept[of ai_custom_endpoint] if_set_kept[of ai_custom_context_window]
  if_set_kept[of ai_prompt_short] if_set_kept[of ai_prompt_full] if_set_kept[of no_ai]
  if_set_kept[of export_plot_formats] if_set_kept[of analysis_dir]
  if_set_kept[of file_list] if_set_kept[of fn_ignore_files] if_set_kept[of fn_ignore_dirs]
  if_set_kept[of fn_ignore_paths] if_set_kept[of sample_names_ignore]
  if_set_kept[of sample_names_only_include] if_set_kept[of kwargs] if_set_kept[of sections]

lemmas if_cond_keeps =
  if_cond_kept[of quiet] if_cond_kept[of no_ansi] if_cond_kept[of verbose]
  if_cond_kept[of loaded_user_files] if_cond_kept[of explicit_user_config_files]
  if_cond_kept[of template] if_cond_kept[of title] if_cond_kept[of report_comment]
  if_cond_kept[of prepend_dirs] if_cond_kept[of prepend_dirs_depth]
  if_cond_kept[of output_dir] if_cond_kept[of use_filename_as_sample_name]
  if_cond_kept[of make_data_dir] if_cond_kept[of force] if_cond_kept[of ignore_symlinks]
  if_cond_kept[of zip_data_dir] if_cond_kept[of data_format] if_cond_kept[of export_plots]
  if_cond_kept[of make_report] if_cond_kept[of plots_force_flat]
  if_cond_kept[of plots_force_interactive] if_cond_kept[of strict] if_cond_kept[of lint]
  if_cond_kept[of development] if_cond_kept[of make_pdf] if_cond_kept[of simple_output]
  if_cond_kept[of filename] if_cond_kept[of megaqc_upload]
  if_cond_kept[of fn_clean_sample_names] if_cond_kept[of run_modules]
  if_cond_kept[of exclude_modules] if_cond_kept[of require_logs]
  if_cond_kept[of profile_runtime] if_cond_kept[of profile_memory]
  if_cond_kept[of no_version_check] if_cond_kept[of custom_css_files]
  if_cond_kept[of module_order] if_cond_kept[of top_modules] if_cond_kept[of fn_clean_exts]
  if_cond_kept[of fn_clean_trim] if_cond_kept[of preserve_module_raw_data]
  if_cond_kept[of data_dump_file_write_raw] if_cond_kept[of ai_summary]
  if_cond_kept[of ai_summary_full] if_cond_kept[of ai_provider] if_cond_kept[of ai_model]
  if_cond_kept[of ai_custom_endpoint] if_cond_kept[of ai_custom_context_window]
  if_cond_kept[of ai_prompt_short] if_cond_kept[of ai_prompt_full] if_cond_kept[of no_ai]
  if_cond_kept[of export_plot_formats] if_cond_kept[of analysis_dir]
  if_cond_kept[of file_list] if_cond_kept[of fn_ignore_files]
  if_cond_kept[of fn_ignore_dirs] if_cond_kept[of fn_ignore_paths]
  if_cond_kept[of sample_names_ignore] if_cond_kept[of sample_names_only_include]
  if_cond_kept[of kwargs] if_cond_kept[of sections]

lemma if_set_sets:
  "\<And>v g c. template (if_set v (\<lambda>x c. c\<lparr>template := g x\<rparr>) c) = assign (map_option g v) (template c)"
  "\<And>v g c. title (if_set v (\<lambda>x c. c\<lparr>title := g x\<rparr>) c) = assign (map_option g v) (title c)"
  "\<And>v g c. report_comment (if_set v (\<lambda>x c. c\<lparr>report_comment := g x\<rparr>) c) = assign (map_option g v) (report_comment c)"
  "\<And>v g c. prepend_dirs (if_set v (\<lambda>x c. c\<lparr>prepend_dirs := g x\<rparr>) c) = assign (map_option g v) (prepend_dirs c)"
  "\<And>v g c. output_dir (if_set v (\<lambda>x c. c\<lparr>output_dir := g x\<rparr>) c) = assign (map_option g v) (output_dir c)"
  "\<And>v g c. use_filename_as_sample_name (if_set v (\<lambda>x c. c\<lparr>use_filename_as_sample_name := g x\<rparr>) c) = assign (map_option g v) (use_filename_as_sample_name c)"
  "\<And>v g c. make_data_dir (if_set v (\<lambda>x c. c\<lparr>make_data_dir := g x\<rparr>) c) = assign (map_option g v) (make_data_dir c)"
  "\<And>v g c. force (if_set v (\<lambda>x c. c\<lparr>force := g x\<rparr>) c) = assign (map_option g v) (force c)"
  "\<And>v g c. ignore_symlinks (if_set v (\<lambda>x c. c\<lparr>ignore_symlinks := g x\<rparr>) c) = assign (map_option g v) (ignore_symlinks c)"
  "\<And>v g c. zip_data_dir (if_set v (\<lambda>x c. c\<lparr>zip_data_dir := g x\<rparr>) c) = assign (map_option g v) (zip_data_dir c)"
  "\<And>v g c. data_format (if_set v (\<lambda>x c. c\<lparr>data_format := g x\<rparr>) c) = assign (map_option g v) (data_format c)"
  "\<And>v g c. export_plots (if_set v (\<lambda>x c. c\<lparr>export_plots := g x\<rparr>) c) = assign (map_option g v) (export_plots c)"
  "\<And>v g c. make_report (if_set v (\<lambda>x c. c\<lparr>make_report := g x\<rparr>) c) = assign (map_option g v) (make_report c)"
  "\<And>v g c. plots_force_flat (if_set v (\<lambda>x c. c\<lparr>plots_force_flat := g x\<rparr>) c) = assign (map_option g v) (plots_force_flat c)"
  "\<And>v g c. plots_force_interactive (if_set v (\<lambda>x c. c\<lparr>plots_force_interactive := g x\<rparr>) c) = assign (map_option g v) (plots_force_interactive c)"
  "\<And>v g c. development (if_set v (\<lambda>x c. c\<lparr>development := g x\<rparr>) c) = assign (map_option g v) (development c)"
  "\<And>v g c. filename (if_set v (\<lambda>x c. c\<lparr>filename := g x\<rparr>) c) = assign (map_option g v) (filename c)"
  "\<And>v g c. megaqc_upload (if_set v (\<lambda>x c. c\<lparr>megaqc_upload := g x\<rparr>) c) = assign (map_option g v) (megaqc_upload c)"
  "\<And>v g c. fn_clean_sample_names (if_set v (\<lambda>x c. c\<lparr>fn_clean_sample_names := g x\<rparr>) c) = assign (map_option g v) (fn_clean_sample_names c)"
  "\<And>v g c. run_modules (if_set v (\<lambda>x c. c\<lparr>run_modules := g x\<rparr>) c) = assign (map_option g v) (run_modules c)"
  "\<And>v g c. exclude_modules (if_set v (\<lambda>x c. c\<lparr>exclude_modules := g x\<rparr>) c) = assign (map_option g v) (exclude_modules c)"
  "\<And>v g c. require_logs (if_set v (\<lambda>x c. c\<lparr>require_logs := g x\<rparr>) c) = assign (map_option g v) (require_logs c)"
  "\<And>v g c. profile_runtime (if_set v (\<lambda>x c. c\<lparr>profile_runtime := g x\<rparr>) c) = assign (map_option g v) (profile_runtime c)"
  "\<And>v g c. no_version_check (if_set v (\<lambda>x c. c\<lparr>no_version_check := g x\<rparr>) c) = assign (map_option g v) (no_version_check c)"
  "\<And>v g c. module_order (if_set v (\<lambda>x c. c\<lparr>module_order := g x\<rparr>) c) = assign (map_option g v) (module_order c)"
  "\<And>v g c. preserve_module_raw_data (if_set v (\<lambda>x c. c\<lparr>preserve_module_raw_data := g x\<rparr>) c) = assign (map_option g v) (preserve_module_raw_data c)"
  "\<And>v g c. data_dump_file_write_raw (if_set v (\<lambda>x c. c\<lparr>data_dump_file_write_raw := g x\<rparr>) c) = assign (map_option g v) (data_dump_file_write_raw c)"
  "\<And>v g c. ai_summary (if_set v (\<lambda>x c. c\<lparr>ai_summary := g x\<rparr>) c) = assign (map_option g v) (ai_summary c)"
  "\<And>v g c. ai_provider (if_set v (\<lambda>x c. c\<lparr>ai_provider := g x\<rparr>) c) = assign (map_option g v) (ai_provider c)"
  "\<And>v g c. ai_model (if_set v (\<lambda>x c. c\<lparr>ai_model := g x\<rparr>) c) = assign (map_option g v) (ai_model c)"
  "\<And>v g c. ai_custom_endpoint (if_set v (\<lambda>x c. c\<lparr>ai_custom_endpoint := g x\<rparr>) c) = assign (map_option g v) (ai_custom_endpoint c)"
  "\<And>v g c. ai_custom_context_window (if_set v (\<lambda>x c. c\<lparr>ai_custom_context_window := g x\<rparr>) c) = assign (map_option g v) (ai_custom_context_window c)"
  "\<And>v g c. ai_prompt_short (if_set v (\<lambda>x c. c\<lparr>ai_prompt_short := g x\<rparr>) c) = assign (map_option g v) (ai_prompt_short c)"
  "\<And>v g c. ai_prompt_full (if_set v (\<lambda>x c. c\<lparr>ai_prompt_full := g x\<rparr>) c) = assign (map_option g v) (ai_prompt_full c)"
  "\<And>v g c. no_ai (if_set v (\<lambda>x c. c\<lparr>no_ai := g x\<rparr>) c) = assign (map_option g v) (no_ai c)"
  "\<And>v g c. quiet (if_set v (\<lambda>x c. c\<lparr>quiet := g x\<rparr>) c) = assign (map_option g v) (quiet c)"
  "\<And>v g c. no_ansi (if_set v (\<lambda>x c. c\<lparr>no_ansi := g x\<rparr>) c) = assign (map_option g v) (no_ansi c)"
  "\<And>v g c. verbose (if_set v (\<lambda>x c. c\<lparr>verbose := g x\<rparr>) c) = assign (map_option g v) (verbose c)"
  "\<And>v g c. kwargs (if_set v (\<lambda>x c. c\<lparr>kwargs := g x\<rparr>) c) = assign (map_option g v) (kwargs c)"
  "\<And>v g c. file_list (if_set v (\<lambda>x c. c\<lparr>file_list := g x\<rparr>) c) = assign (map_option g v) (file_list c)"
  "\<And>v g c. analysis_dir (if_set v (\<lambda>x c. c\<lparr>analysis_dir := g x\<rparr>) c) = assign (map_option g v) (analysis_dir c)"
  by (simp_all add: if_set_def assign_def split: option.split)

lemma if_set_sets_two:
  "\<And>v c. prepend_dirs (if_set v (\<lambda>x c. c\<lparr>prepend_dirs := True, prepend_dirs_depth := x\<rparr>) c) =
     assign (map_option (\<lambda>_. True) v) (prepend_dirs c)"
  "\<And>v c. prepend_dirs_depth (if_set v (\<lambda>x c. c\<lparr>prepend_dirs := True, prepend_dirs_depth := x\<rparr>) c) =
     assign v (prepend_dirs_depth c)"
  "\<And>v c. strict (if_set v (\<lambda>x c. c\<lparr>strict := x, lint := x\<rparr>) c) =
     assign v (strict c)"
  "\<And>v c. lint (if_set v (\<lambda>x c. c\<lparr>strict := x, lint := x\<rparr>) c) =
     assign v (lint c)"
  "\<And>v c. make_pdf (if_set v (\<lambda>x c. c\<lparr>make_pdf := x, template := ''simple''\<rparr>) c) =
     assign v (make_pdf c)"
  "\<And>v c. template (if_set v (\<lambda>x c. c\<lparr>make_pdf := x, template := ''simple''\<rparr>) c) =
     assign (map_option (\<lambda>_. ''simple'') v) (template c)"
  "\<And>v c. profile_runtime (if_set v (\<lambda>x c. c\<lparr>profile_runtime := x, profile_memory := x\<rparr>) c) =
     assign v (profile_runtime c)"
  "\<And>v c. profile_memory (if_set v (\<lambda>x c. c\<lparr>profile_runtime := x, profile_memory := x\<rparr>) c) =
     assign v (profile_memory c)"
  "\<And>v c. ai_summary (if_set v (\<lambda>x c. c\<lparr>ai_summary := x, ai_summary_full := x\<rparr>) c) =
     assign v (ai_summary c)"
  "\<And>v c. ai_summary_full (if_set v (\<lambda>x c. c\<lparr>ai_summary := x, ai_summary_full := x\<rparr>) c) =
     assign v (ai_summary_full c)"
  by (simp_all add: if_set_def assign_def split: option.split)

lemma if_set_extends:
  "\<And>v g c. custom_css_files (if_set v (\<lambda>x c. c\<lparr>custom_css_files := custom_css_files c @ g x\<rparr>) c) =
     custom_css_files c @ assign (map_option g v) []"
  "\<And>v g c. sample_names_ignore (if_set v (\<lambda>x c. c\<lparr>sample_names_ignore := sample_names_ignore c @ g x\<rparr>) c) =
     sample_names_ignore c @ assign (map_option g v) []"
  "\<And>v g c. sample_names_only_include (if_set v (\<lambda>x c. c\<lparr>sample_names_only_include := sample_names_only_include c @ g x\<rparr>) c) =
     sample_names_only_include c @ assign (map_option g v) []"
  "\<And>v g c. fn_clean_exts (if_set v (\<lambda>x c. c\<lparr>fn_clean_exts := g x @ fn_clean_exts c\<rparr>) c) =
     assign (map_option g v) [] @ fn_clean_exts c"
  "\<And>v g c. fn_clean_trim (if_set v (\<lambda>x c. c\<lparr>fn_clean_trim := g x @ fn_clean_trim c\<rparr>) c) =
     assign (map_option g v) [] @ fn_clean_trim c"
  "\<And>v g c. fn_ignore_files (if_set v (\<lambda>x c. c\<lparr>fn_ignore_files := fn_ignore_files c @ g x, fn_ignore_dirs := fn_ignore_dirs c @ g x,
        fn_ignore_paths := fn_ignore_paths c @ g x\<rparr>) c) =
     fn_ignore_files c @ assign (map_option g v) []"
  "\<And>v g c. fn_ignore_dirs (if_set v (\<lambda>x c. c\<lparr>fn_ignore_files := fn_ignore_files c @ g x, fn_ignore_dirs := fn_ignore_dirs c @ g x,
        fn_ignore_paths := fn_ignore_paths c @ g x\<rparr>) c) =
     fn_ignore_dirs c @ assign (map_option g v) []"
  "\<And>v g c. fn_ignore_paths (if_set v (\<lambda>x c. c\<lparr>fn_ignore_files := fn_ignore_files c @ g x, fn_ignore_dirs := fn_ignore_dirs c @ g x,
        fn_ignore_paths := fn_ignore_paths c @ g x\<rparr>) c) =
     fn_ignore_paths c @ assign (map_option g v) []"
  by (simp_all add: if_set_def assign_def split: option.split)

lemma if_cond_simple:
  "plots_force_flat (if_cond (\<lambda>c. template c = ''simple'')
      (\<lambda>c. c\<lparr>plots_force_flat := True, simple_output := True\<rparr>) c) =
     (template c = ''simple'' \<or> plots_force_flat c)"
  "simple_output (if_cond (\<lambda>c. template c = ''simple'')
      (\<lambda>c. c\<lparr>plots_force_flat := True, simple_output := True\<rparr>) c) =
     (template c = ''simple'' \<or> simple_output c)"
  by (simp_all add: if_cond_def)

lemma if_cond_png:
  "export_plot_formats (if_cond (\<lambda>c. development c \<and> ''png'' \<notin> set (export_plot_formats c))
      (\<lambda>c. c\<lparr>export_plot_formats := export_plot_formats c @ [''png'']\<rparr>) c) =
     export_plot_formats c @
       (if development c \<and> ''png'' \<notin> set (export_plot_formats c) then [''png''] else [])"
  by (simp add: if_cond_def)

lemmas through_statements =
  if_truthy_if_set if_cond_if_set if_set_keeps if_cond_keeps if_set_sets if_set_sets_two
  if_set_extends if_cond_simple if_cond_png option.map_ident assign_given

lemma reset_logger_fields:
  fixes c :: "'x config"
  shows
    "quiet (reset_logger cfg c) = assign (ClConfig.quiet cfg) (quiet c)"
    "no_ansi (reset_logger cfg c) = assign (ClConfig.no_ansi cfg) (no_ansi c)"
    "verbose (reset_logger cfg c) = assign (ClConfig.verbose cfg) (verbose c)"
    "loaded_user_files (reset_logger cfg c) = loaded_user_files c"
    "explicit_user_config_files (reset_logger cfg c) =
       explicit_user_config_files c"
    "template (reset_logger cfg c) = template c"
    "title (reset_logger cfg c) = title c"
    "report_comment (reset_logger cfg c) = report_comment c"
    "prepend_dirs (reset_logger cfg c) = prepend_dirs c"
    "prepend_dirs_depth (reset_logger cfg c) = prepend_dirs_depth c"
    "output_dir (reset_logger cfg c) = output_dir c"
    "use_filename_as_sample_name (reset_logger cfg c) =
       use_filename_as_sample_name c"
    "make_data_dir (reset_logger cfg c) = make_data_dir c"
    "force (reset_logger cfg c) = force c"
    "ignore_symlinks (reset_logger cfg c) = ignore_symlinks c"
    "zip_data_dir (reset_logger cfg c) = zip_data_dir c"
    "data_format (reset_logger cfg c) = data_format c"
    "export_plots (reset_logger cfg c) = export_plots c"
    "make_report (reset_logger cfg c) = make_report c"
    "plots_force_flat (reset_logger cfg c) = plots_force_flat c"
    "plots_force_interactive (reset_logger cfg c) = plots_force_interactive c"
    "strict (reset_logger cfg c) = strict c"
    "lint (reset_logger cfg c) = lint c"
    "development (reset_logger cfg c) = development c"
    "make_pdf (reset_logger cfg c) = make_pdf c"
    "simple_output (reset_logger cfg c) = simple_output c"
    "filename (reset_logger cfg c) = filename c"
    "megaqc_upload (reset_logger cfg c) = megaqc_upload c"
    "fn_clean_sample_names (reset_logger cfg c) = fn_clean_sample_names c"
    "run_modules (reset_logger cfg c) = run_modules c"
    "exclude_modules (reset_logger cfg c) = exclude_modules c"
    "require_logs (reset_logger cfg c) = require_logs c"
    "profile_runtime (reset_logger cfg c) = profile_runtime c"
    "profile_memory (reset_logger cfg c) = profile_memory c"
    "no_version_check (reset_logger cfg c) = no_version_check c"
    "custom_css_files (reset_logger cfg c) = custom_css_files c"
    "module_order (reset_logger cfg c) = module_order c"
    "top_modules (reset_logger cfg c) = top_modules c"
    "fn_clean_exts (reset_logger cfg c) = fn_clean_exts c"
    "fn_clean_trim (reset_logger cfg c) = fn_clean_trim c"
    "preserve_module_raw_data (reset_logger cfg c) = preserve_module_raw_data c"
    "data_dump_file_write_raw (reset_logger cfg c) = data_dump_file_write_raw c"
    "ai_summary (reset_logger cfg c) = ai_summary c"
    "ai_summary_full (reset_logger cfg c) = ai_summary_full c"
    "ai_provider (reset_logger cfg c) = ai_provider c"
    "ai_model (reset_logger cfg c) = ai_model c"
    "ai_custom_endpoint (reset_logger cfg c) = ai_custom_endpoint c"
    "ai_custom_context_window (reset_logger cfg c) = ai_custom_context_window c"
    "ai_prompt_short (reset_logger cfg c) = ai_prompt_short c"
    "ai_prompt_full (reset_logger cfg c) = ai_prompt_full c"
    "no_ai (reset_logger cfg c) = no_ai c"
    "export_plot_formats (reset_logger cfg c) = export_plot_formats c"
    "analysis_dir (reset_logger cfg c) = analysis_dir c"
    "file_list (reset_logger cfg c) = file_list c"
    "fn_ignore_files (reset_logger cfg c) = fn_ignore_files c"
    "fn_ignore_dirs (reset_logger cfg c) = fn_ignore_dirs c"
    "fn_ignore_paths (reset_logger cfg c) = fn_ignore_paths c"
    "sample_names_ignore (reset_logger cfg c) = sample_names_ignore c"
    "sample_names_only_include (reset_logger cfg c) =
       sample_names_only_include c"
    "kwargs (reset_logger cfg c) = kwargs c"
    "sections (reset_logger cfg c) = sections c"
  by (simp_all add: reset_logger_def through_statements)

lemma key_variables_fields:
  fixes c :: "'x config"
  shows
    "quiet (key_variables env cfg c) = quiet c"
    "no_ansi (key_variables env cfg c) = no_ansi c"
    "verbose (key_variables env cfg c) = verbose c"
    "loaded_user_files (key_variables env cfg c) = loaded_user_files c"
    "explicit_user_config_files (key_variables env cfg c) =
       explicit_user_config_files c"
    "template (key_variables env cfg c) =
       assign (map_option (\<lambda>_. ''simple'') (truthy bool_truth (ClConfig.make_pdf cfg)))
        (assign (ClConfig.template cfg) (template c))"
    "title (key_variables env cfg c) =
       assign (map_option Some (ClConfig.title cfg)) (title c)"
    "report_comment (key_variables env cfg c) =
       assign (map_option Some (ClConfig.report_comment cfg)) (report_comment c)"
    "prepend_dirs (key_variables env cfg c) =
       assign (map_option (\<lambda>_. True) (ClConfig.dirs_depth cfg))
        (assign (ClConfig.prepend_dirs cfg) (prepend_dirs c))"
    "prepend_dirs_depth (key_variables env cfg c) =
       assign (ClConfig.dirs_depth cfg) (prepend_dirs_depth c)"
    "output_dir (key_variables env cfg c) =
       assign (map_option (realpath env) (ClConfig.output_dir cfg)) (output_dir c)"
    "use_filename_as_sample_name (key_variables env cfg c) =
       assign (ClConfig.use_filename_as_sample_name cfg) (use_filename_as_sample_name c)"
    "make_data_dir (key_variables env cfg c) =
       assign (ClConfig.make_data_dir cfg) (make_data_dir c)"
    "force (key_variables env cfg c) = assign (ClConfig.force cfg) (force c)"
    "ignore_symlinks (key_variables env cfg c) =
       assign (ClConfig.ignore_symlinks cfg) (ignore_symlinks c)"
    "zip_data_dir (key_variables env cfg c) =
       assign (ClConfig.zip_data_dir cfg) (zip_data_dir c)"
    "data_format (key_variables env cfg c) =
       assign (ClConfig.data_format cfg) (data_format c)"
    "export_plots (key_variables env cfg c) =
       assign (ClConfig.export_plots cfg) (export_plots c)"
    "make_report (key_variables env cfg c) =
       assign (ClConfig.make_report cfg) (make_report c)"
    "plots_force_flat (key_variables env cfg c) =
       (template (key_variables env cfg c) = ''simple'' \<or>
        assign (ClConfig.plots_force_flat cfg) (plots_force_flat c))"
    "plots_force_interactive (key_variables env cfg c) =
       assign (ClConfig.plots_force_interactive cfg) (plots_force_interactive c)"
    "strict (key_variables env cfg c) = assign (ClConfig.strict cfg) (strict c)"
    "lint (key_variables env cfg c) = assign (ClConfig.strict cfg) (lint c)"
    "development (key_variables env cfg c) =
       assign (ClConfig.development cfg) (development c)"
    "make_pdf (key_variables env cfg c) =
       assign (truthy bool_truth (ClConfig.make_pdf cfg)) (make_pdf c)"
    "simple_output (key_variables env cfg c) =
       (template (key_variables env cfg c) = ''simple'' \<or> simple_output c)"
    "filename (key_variables env cfg c) =
       assign (map_option Some (truthy nonempty (ClConfig.filename cfg))) (filename c)"
    "megaqc_upload (key_variables env cfg c) =
       assign (map_option Not (ClConfig.no_megaqc_upload cfg)) (megaqc_upload c)"
    "fn_clean_sample_names (key_variables env cfg c) =
       assign (ClConfig.fn_clean_sample_names cfg) (fn_clean_sample_names c)"
    "run_modules (key_variables env cfg c) = run_modules c"
    "exclude_modules (key_variables env cfg c) = exclude_modules c"
    "require_logs (key_variables env cfg c) = require_logs c"
    "profile_runtime (key_variables env cfg c) = profile_runtime c"
    "profile_memory (key_variables env cfg c) = profile_memory c"
    "no_version_check (key_variables env cfg c) = no_version_check c"
    "custom_css_files (key_variables env cfg c) = custom_css_files c"
    "module_order (key_variables env cfg c) = module_order c"
    "top_modules (key_variables env cfg c) = top_modules c"
    "fn_clean_exts (key_variables env cfg c) = fn_clean_exts c"
    "fn_clean_trim (key_variables env cfg c) = fn_clean_trim c"
    "preserve_module_raw_data (key_variables env cfg c) =
       preserve_module_raw_data c"
    "data_dump_file_write_raw (key_variables env cfg c) =
       data_dump_file_write_raw c"
    "ai_summary (key_variables env cfg c) = ai_summary c"
    "ai_summary_full (key_variables env cfg c) = ai_summary_full c"
    "ai_provider (key_variables env cfg c) = ai_provider c"
    "ai_model (key_variables env cfg c) = ai_model c"
    "ai_custom_endpoint (key_variables env cfg c) = ai_custom_endpoint c"
    "ai_custom_context_window (key_variables env cfg c) =
       ai_custom_context_window c"
    "ai_prompt_short (key_variables env cfg c) = ai_prompt_short c"
    "ai_prompt_full (key_variables env cfg c) = ai_prompt_full c"
    "no_ai (key_variables env cfg c) = no_ai c"
    "export_plot_formats (key_variables env cfg c) = export_plot_formats c"
    "analysis_dir (key_variables env cfg c) = analysis_dir c"
    "file_list (key_variables env cfg c) = file_list c"
    "fn_ignore_files (key_variables env cfg c) = fn_ignore_files c"
    "fn_ignore_dirs (key_variables env cfg c) = fn_ignore_dirs c"
    "fn_ignore_paths (key_variables env cfg c) = fn_ignore_paths c"
    "sample_names_ignore (key_variables env cfg c) = sample_names_ignore c"
    "sample_names_only_include (key_variables env cfg c) =
       sample_names_only_include c"
    "kwargs (key_variables env cfg c) = kwargs c"
    "sections (key_variables env cfg c) = sections c"
  by (simp_all add: key_variables_def through_statements)

lemma config_sample_name_files_fields:
  fixes c :: "'x config"
  shows
    "quiet (config_sample_name_files env cfg c) = quiet c"
    "no_ansi (config_sample_name_files env cfg c) = no_ansi c"
    "verbose (config_sample_name_files env cfg c) = verbose c"
    "loaded_user_files (config_sample_name_files env cfg c) =
       loaded_user_files c"
    "explicit_user_config_files (config_sample_name_files env cfg c) =
       explicit_user_config_files c"
    "template (config_sample_name_files env cfg c) = template c"
    "title (config_sample_name_files env cfg c) = title c"
    "report_comment (config_sample_name_files env cfg c) = report_comment c"
    "prepend_dirs (config_sample_name_files env cfg c) = prepend_dirs c"
    "prepend_dirs_depth (config_sample_name_files env cfg c) =
       prepend_dirs_depth c"
    "output_dir (config_sample_name_files env cfg c) = output_dir c"
    "use_filename_as_sample_name (config_sample_name_files env cfg c) =
       use_filename_as_sample_name c"
    "make_data_dir (config_sample_name_files env cfg c) = make_data_dir c"
    "force (config_sample_name_files env cfg c) = force c"
    "ignore_symlinks (config_sample_name_files env cfg c) = ignore_symlinks c"
    "zip_data_dir (config_sample_name_files env cfg c) = zip_data_dir c"
    "data_format (config_sample_name_files env cfg c) = data_format c"
    "export_plots (config_sample_name_files env cfg c) = export_plots c"
    "make_report (config_sample_name_files env cfg c) = make_report c"
    "plots_force_flat (config_sample_name_files env cfg c) = plots_force_flat c"
    "plots_force_interactive (config_sample_name_files env cfg c) =
       plots_force_interactive c"
    "strict (config_sample_name_files env cfg c) = strict c"
    "lint (config_sample_name_files env cfg c) = lint c"
    "development (config_sample_name_files env cfg c) = development c"
    "make_pdf (config_sample_name_files env cfg c) = make_pdf c"
    "simple_output (config_sample_name_files env cfg c) = simple_output c"
    "filename (config_sample_name_files env cfg c) = filename c"
    "megaqc_upload (config_sample_name_files env cfg c) = megaqc_upload c"
    "fn_clean_sample_names (config_sample_name_files env cfg c) =
       fn_clean_sample_names c"
    "run_modules (config_sample_name_files env cfg c) = run_modules c"
    "exclude_modules (config_sample_name_files env cfg c) = exclude_modules c"
    "require_logs (config_sample_name_files env cfg c) = require_logs c"
    "profile_runtime (config_sample_name_files env cfg c) = profile_runtime c"
    "profile_memory (config_sample_name_files env cfg c) = profile_memory c"
    "no_version_check (config_sample_name_files env cfg c) = no_version_check c"
    "custom_css_files (config_sample_name_files env cfg c) = custom_css_files c"
    "module_order (config_sample_name_files env cfg c) = module_order c"
    "top_modules (config_sample_name_files env cfg c) = top_modules c"
    "fn_clean_exts (config_sample_name_files env cfg c) = fn_clean_exts c"
    "fn_clean_trim (config_sample_name_files env cfg c) = fn_clean_trim c"
    "preserve_module_raw_data (config_sample_name_files env cfg c) =
       preserve_module_raw_data c"
    "data_dump_file_write_raw (config_sample_name_files env cfg c) =
       data_dump_file_write_raw c"
    "ai_summary (config_sample_name_files env cfg c) = ai_summary c"
    "ai_summary_full (config_sample_name_files env cfg c) = ai_summary_full c"
    "ai_provider (config_sample_name_files env cfg c) = ai_provider c"
    "ai_model (config_sample_name_files env cfg c) = ai_model c"
    "ai_custom_endpoint (config_sample_name_files env cfg c) =
       ai_custom_endpoint c"
    "ai_custom_context_window (config_sample_name_files env cfg c) =
       ai_custom_context_window c"
    "ai_prompt_short (config_sample_name_files env cfg c) = ai_prompt_short c"
    "ai_prompt_full (config_sample_name_files env cfg c) = ai_prompt_full c"
    "no_ai (config_sample_name_files env cfg c) = no_ai c"
    "export_plot_formats (config_sample_name_files env cfg c) =
       export_plot_formats c"
    "analysis_dir (config_sample_name_files env cfg c) = analysis_dir c"
    "file_list (config_sample_name_files env cfg c) = file_list c"
    "fn_ignore_files (config_sample_name_files env cfg c) = fn_ignore_files c"
    "fn_ignore_dirs (config_sample_name_files env cfg c) = fn_ignore_dirs c"
    "fn_ignore_paths (config_sample_name_files env cfg c) = fn_ignore_paths c"
    "sample_names_ignore (config_sample_name_files env cfg c) =
       sample_names_ignore c"
    "sample_names_only_include (config_sample_name_files env cfg c) =
       sample_names_only_include c"
    "kwargs (config_sample_name_files env cfg c) = kwargs c"
  by (simp_all add: config_sample_name_files_def through_statements)

lemma more_variables_fields:
  fixes c :: "'x config"
  shows
    "quiet (more_variables cfg c) = quiet c"
    "no_ansi (more_variables cfg c) = no_ansi c"
    "verbose (more_variables cfg c) = verbose c"
    "loaded_user_files (more_variables cfg c) = loaded_user_files c"
    "explicit_user_config_files (more_variables cfg c) =
       explicit_user_config_files c"
    "template (more_variables cfg c) = template c"
    "title (more_variables cfg c) = title c"
    "report_comment (more_variables cfg c) = report_comment c"
    "prepend_dirs (more_variables cfg c) = prepend_dirs c"
    "prepend_dirs_depth (more_variables cfg c) = prepend_dirs_depth c"
    "output_dir (more_variables cfg c) = output_dir c"
    "use_filename_as_sample_name (more_variables cfg c) =
       use_filename_as_sample_name c"
    "make_data_dir (more_variables cfg c) = make_data_dir c"
    "force (more_variables cfg c) = force c"
    "ignore_symlinks (more_variables cfg c) = ignore_symlinks c"
    "zip_data_dir (more_variables cfg c) = zip_data_dir c"
    "data_format (more_variables cfg c) = data_format c"
    "export_plots (more_variables cfg c) = export_plots c"
    "make_report (more_variables cfg c) = make_report c"
    "plots_force_flat (more_variables cfg c) = plots_force_flat c"
    "plots_force_interactive (more_variables cfg c) = plots_force_interactive c"
    "strict (more_variables cfg c) = strict c"
    "lint (more_variables cfg c) = lint c"
    "development (more_variables cfg c) = development c"
    "make_pdf (more_variables cfg c) = make_pdf c"
    "simple_output (more_variables cfg c) = simple_output c"
    "filename (more_variables cfg c) = filename c"
    "megaqc_upload (more_variables cfg c) = megaqc_upload c"
    "fn_clean_sample_names (more_variables cfg c) = fn_clean_sample_names c"
    "run_modules (more_variables cfg c) =
       (if ClConfig.run_modules cfg \<noteq> [] then ClConfig.run_modules cfg else run_modules c)"
    "exclude_modules (more_variables cfg c) =
       (if ClConfig.exclude_modules cfg \<noteq> [] then ClConfig.exclude_modules cfg
         else exclude_modules c)"
    "require_logs (more_variables cfg c) =
       assign (ClConfig.require_logs cfg) (require_logs c)"
    "profile_runtime (more_variables cfg c) =
       assign (ClConfig.profile_memory cfg)
        (assign (ClConfig.profile_runtime cfg) (profile_runtime c))"
    "profile_memory (more_variables cfg c) =
       assign (ClConfig.profile_memory cfg) (profile_memory c)"
    "no_version_check (more_variables cfg c) =
       assign (ClConfig.no_version_check cfg) (no_version_check c)"
    "custom_css_files (more_variables cfg c) =
       custom_css_files c @ ClConfig.custom_css_files cfg"
    "module_order (more_variables cfg c) =
       (if ClConfig.module_order cfg \<noteq> [] then ClConfig.module_order cfg else module_order c)"
    "top_modules (more_variables cfg c) = top_modules c"
    "fn_clean_exts (more_variables cfg c) =
       ClConfig.extra_fn_clean_exts cfg @ fn_clean_exts c"
    "fn_clean_trim (more_variables cfg c) =
       ClConfig.extra_fn_clean_trim cfg @ fn_clean_trim c"
    "preserve_module_raw_data (more_variables cfg c) =
       assign (ClConfig.preserve_module_raw_data cfg) (preserve_module_raw_data c)"
    "data_dump_file_write_raw (more_variables cfg c) =
       assign (ClConfig.data_dump_file_write_raw cfg) (data_dump_file_write_raw c)"
    "ai_summary (more_variables cfg c) =
       assign (ClConfig.ai_summary_full cfg)
        (assign (ClConfig.ai_summary cfg) (ai_summary c))"
    "ai_summary_full (more_variables cfg c) =
       assign (ClConfig.ai_summary_full cfg) (ai_summary_full c)"
    "ai_provider (more_variables cfg c) =
       assign (ClConfig.ai_provider cfg) (ai_provider c)"
    "ai_model (more_variables cfg c) =
       assign (map_option Some (ClConfig.ai_model cfg)) (ai_model c)"
    "ai_custom_endpoint (more_variables cfg c) =
       assign (map_option Some (ClConfig.ai_custom_endpoint cfg)) (ai_custom_endpoint c)"
    "ai_custom_context_window (more_variables cfg c) =
       assign (map_option Some (ClConfig.ai_custom_context_window cfg)) (ai_custom_context_window c)"
    "ai_prompt_short (more_variables cfg c) =
       assign (map_option Some (ClConfig.ai_prompt_short cfg)) (ai_prompt_short c)"
    "ai_prompt_full (more_variables cfg c) =
       assign (map_option Some (ClConfig.ai_prompt_full cfg)) (ai_prompt_full c)"
    "no_ai (more_variables cfg c) = assign (ClConfig.no_ai cfg) (no_ai c)"
    "export_plot_formats (more_variables cfg c) = export_plot_formats c"
    "analysis_dir (more_variables cfg c) = analysis_dir c"
    "file_list (more_variables cfg c) = file_list c"
    "fn_ignore_files (more_variables cfg c) = fn_ignore_files c"
    "fn_ignore_dirs (more_variables cfg c) = fn_ignore_dirs c"
    "fn_ignore_paths (more_variables cfg c) = fn_ignore_paths c"
    "sample_names_ignore (more_variables cfg c) = sample_names_ignore c"
    "sample_names_only_include (more_variables cfg c) =
       sample_names_only_include c"
    "kwargs (more_variables cfg c) = kwargs c"
    "sections (more_variables cfg c) = sections c"
  by (simp_all add: more_variables_def through_statements nonempty_def)

lemma development_png_fields:
  fixes c :: "'x config"
  shows
    "quiet (development_png c) = quiet c"
    "no_ansi (development_png c) = no_ansi c"
    "verbose (development_png c) = verbose c"
    "loaded_user_files (development_png c) = loaded_user_files c"
    "explicit_user_config_files (development_png c) =
       explicit_user_config_files c"
    "template (development_png c) = template c"
    "title (development_png c) = title c"
    "report_comment (development_png c) = report_comment c"
    "prepend_dirs (development_png c) = prepend_dirs c"
    "prepend_dirs_depth (development_png c) = prepend_dirs_depth c"
    "output_dir (development_png c) = output_dir c"
    "use_filename_as_sample_name (development_png c) =
       use_filename_as_sample_name c"
    "make_data_dir (development_png c) = make_data_dir c"
    "force (development_png c) = force c"
    "ignore_symlinks (development_png c) = ignore_symlinks c"
    "zip_data_dir (development_png c) = zip_data_dir c"
    "data_format (development_png c) = data_format c"
    "export_plots (development_png c) = export_plots c"
    "make_report (development_png c) = make_report c"
    "plots_force_flat (development_png c) = plots_force_flat c"
    "plots_force_interactive (development_png c) = plots_force_interactive c"
    "strict (development_png c) = strict c"
    "lint (development_png c) = lint c"
    "development (development_png c) = development c"
    "make_pdf (development_png c) = make_pdf c"
    "simple_output (development_png c) = simple_output c"
    "filename (development_png c) = filename c"
    "megaqc_upload (development_png c) = megaqc_upload c"
    "fn_clean_sample_names (development_png c) = fn_clean_sample_names c"
    "run_modules (development_png c) = run_modules c"
    "exclude_modules (development_png c) = exclude_modules c"
    "require_logs (development_png c) = require_logs c"
    "profile_runtime (development_png c) = profile_runtime c"
    "profile_memory (development_png c) = profile_memory c"
    "no_version_check (development_png c) = no_version_check c"
    "custom_css_files (development_png c) = custom_css_files c"
    "module_order (development_png c) = module_order c"
    "top_modules (development_png c) = top_modules c"
    "fn_clean_exts (development_png c) = fn_clean_exts c"
    "fn_clean_trim (development_png c) = fn_clean_trim c"
    "preserve_module_raw_data (development_png c) = preserve_module_raw_data c"
    "data_dump_file_write_raw (development_png c) = data_dump_file_write_raw c"
    "ai_summary (development_png c) = ai_summary c"
    "ai_summary_full (development_png c) = ai_summary_full c"
    "ai_provider (development_png c) = ai_provider c"
    "ai_model (development_png c) = ai_model c"
    "ai_custom_endpoint (development_png c) = ai_custom_endpoint c"
    "ai_custom_context_window (development_png c) = ai_custom_context_window c"
    "ai_prompt_short (development_png c) = ai_prompt_short c"
    "ai_prompt_full (development_png c) = ai_prompt_full c"
    "no_ai (development_png c) = no_ai c"
    "export_plot_formats (development_png c) =
       export_plot_formats c @
        (if development c \<and> ''png'' \<notin> set (export_plot_formats c) then [''png''] else [])"
    "analysis_dir (development_png c) = analysis_dir c"
    "file_list (development_png c) = file_list c"
    "fn_ignore_files (development_png c) = fn_ignore_files c"
    "fn_ignore_dirs (development_png c) = fn_ignore_dirs c"
    "fn_ignore_paths (development_png c) = fn_ignore_paths c"
    "sample_names_ignore (development_png c) = sample_names_ignore c"
    "sample_names_only_include (development_png c) = sample_names_only_include c"
    "kwargs (development_png c) = kwargs c"
    "sections (development_png c) = sections c"
  by (simp_all add: development_png_def through_statements)

lemma set_analysis_dir_fields:
  fixes c :: "'x config"
  shows
    "quiet (set_analysis_dir dirs c) = quiet c"
    "no_ansi (set_analysis_dir dirs c) = no_ansi c"
    "verbose (set_analysis_dir dirs c) = verbose c"
    "loaded_user_files (set_analysis_dir dirs c) = loaded_user_files c"
    "explicit_user_config_files (set_analysis_dir dirs c) =
       explicit_user_config_files c"
    "template (set_analysis_dir dirs c) = template c"
    "title (set_analysis_dir dirs c) = title c"
    "report_comment (set_analysis_dir dirs c) = report_comment c"
    "prepend_dirs (set_analysis_dir dirs c) = prepend_dirs c"
    "prepend_dirs_depth (set_analysis_dir dirs c) = prepend_dirs_depth c"
    "output_dir (set_analysis_dir dirs c) = output_dir c"
    "use_filename_as_sample_name (set_analysis_dir dirs c) =
       use_filename_as_sample_name c"
    "make_data_dir (set_analysis_dir dirs c) = make_data_dir c"
    "force (set_analysis_dir dirs c) = force c"
    "ignore_symlinks (set_analysis_dir dirs c) = ignore_symlinks c"
    "zip_data_dir (set_analysis_dir dirs c) = zip_data_dir c"
    "data_format (set_analysis_dir dirs c) = data_format c"
    "export_plots (set_analysis_dir dirs c) = export_plots c"
    "make_report (set_analysis_dir dirs c) = make_report c"
    "plots_force_flat (set_analysis_dir dirs c) = plots_force_flat c"
    "plots_force_interactive (set_analysis_dir dirs c) =
       plots_force_interactive c"
    "strict (set_analysis_dir dirs c) = strict c"
    "lint (set_analysis_dir dirs c) = lint c"
    "development (set_analysis_dir dirs c) = development c"
    "make_pdf (set_analysis_dir dirs c) = make_pdf c"
    "simple_output (set_analysis_dir dirs c) = simple_output c"
    "filename (set_analysis_dir dirs c) = filename c"
    "megaqc_upload (set_analysis_dir dirs c) = megaqc_upload c"
    "fn_clean_sample_names (set_analysis_dir dirs c) = fn_clean_sample_names c"
    "run_modules (set_analysis_dir dirs c) = run_modules c"
    "exclude_modules (set_analysis_dir dirs c) = exclude_modules c"
    "require_logs (set_analysis_dir dirs c) = require_logs c"
    "profile_runtime (set_analysis_dir dirs c) = profile_runtime c"
    "profile_memory (set_analysis_dir dirs c) = profile_memory c"
    "no_version_check (set_analysis_dir dirs c) = no_version_check c"
    "custom_css_files (set_analysis_dir dirs c) = custom_css_files c"
    "module_order (set_analysis_dir dirs c) = module_order c"
    "top_modules (set_analysis_dir dirs c) = top_modules c"
    "fn_clean_exts (set_analysis_dir dirs c) = fn_clean_exts c"
    "fn_clean_trim (set_analysis_dir dirs c) = fn_clean_trim c"
    "preserve_module_raw_data (set_analysis_dir dirs c) =
       preserve_module_raw_data c"
    "data_dump_file_write_raw (set_analysis_dir dirs c) =
       data_dump_file_write_raw c"
    "ai_summary (set_analysis_dir dirs c) = ai_summary c"
    "ai_summary_full (set_analysis_dir dirs c) = ai_summary_full c"
    "ai_provider (set_analysis_dir dirs c) = ai_provider c"
    "ai_model (set_analysis_dir dirs c) = ai_model c"
    "ai_custom_endpoint (set_analysis_dir dirs c) = ai_custom_endpoint c"
    "ai_custom_context_window (set_analysis_dir dirs c) =
       ai_custom_context_window c"
    "ai_prompt_short (set_analysis_dir dirs c) = ai_prompt_short c"
    "ai_prompt_full (set_analysis_dir dirs c) = ai_prompt_full c"
    "no_ai (set_analysis_dir dirs c) = no_ai c"
    "export_plot_formats (set_analysis_dir dirs c) = export_plot_formats c"
    "analysis_dir (set_analysis_dir dirs c) =
       (if dirs \<noteq> [] then dirs else analysis_dir c)"
    "file_list (set_analysis_dir dirs c) = file_list c"
    "fn_ignore_files (set_analysis_dir dirs c) = fn_ignore_files c"
    "fn_ignore_dirs (set_analysis_dir dirs c) = fn_ignore_dirs c"
    "fn_ignore_paths (set_analysis_dir dirs c) = fn_ignore_paths c"
    "sample_names_ignore (set_analysis_dir dirs c) = sample_names_ignore c"
    "sample_names_only_include (set_analysis_dir dirs c) =
       sample_names_only_include c"
    "kwargs (set_analysis_dir dirs c) = kwargs c"
    "sections (set_analysis_dir dirs c) = sections c"
  by (simp_all add: set_analysis_dir_def through_statements)

lemmas block_fields =
  key_variables_fields config_sample_name_files_fields more_variables_fields
  development_png_fields set_analysis_dir_fields

lemma overrides_fields:
  fixes c :: "'x config"
  shows
    "quiet (overrides env dirs cfg c) = quiet c"
    "no_ansi (overrides env dirs cfg c) = no_ansi c"
    "verbose (overrides env dirs cfg c) = verbose c"
    "loaded_user_files (overrides env dirs cfg c) = loaded_user_files c"
    "explicit_user_config_files (overrides env dirs cfg c) =
       explicit_user_config_files c"
    "template (overrides env dirs cfg c) =
       assign (map_option (\<lambda>_. ''simple'') (truthy bool_truth (ClConfig.make_pdf cfg)))
        (assign (ClConfig.template cfg) (template c))"
    "title (overrides env dirs cfg c) =
       assign (map_option Some (ClConfig.title cfg)) (title c)"
    "report_comment (overrides env dirs cfg c) =
       assign (map_option Some (ClConfig.report_comment cfg)) (report_comment c)"
    "prepend_dirs (overrides env dirs cfg c) =
       assign (map_option (\<lambda>_. True) (ClConfig.dirs_depth cfg))
        (assign (ClConfig.prepend_dirs cfg) (prepend_dirs c))"
    "prepend_dirs_depth (overrides env dirs cfg c) =
       assign (ClConfig.dirs_depth cfg) (prepend_dirs_depth c)"
    "output_dir (overrides env dirs cfg c) =
       assign (map_option (realpath env) (ClConfig.output_dir cfg)) (output_dir c)"
    "use_filename_as_sample_name (overrides env dirs cfg c) =
       assign (ClConfig.use_filename_as_sample_name cfg) (use_filename_as_sample_name c)"
    "make_data_dir (overrides env dirs cfg c) =
       assign (ClConfig.make_data_dir cfg) (make_data_dir c)"
    "force (overrides env dirs cfg c) = assign (ClConfig.force cfg) (force c)"
    "ignore_symlinks (overrides env dirs cfg c) =
       assign (ClConfig.ignore_symlinks cfg) (ignore_symlinks c)"
    "zip_data_dir (overrides env dirs cfg c) =
       assign (ClConfig.zip_data_dir cfg) (zip_data_dir c)"
    "data_format (overrides env dirs cfg c) =
       assign (ClConfig.data_format cfg) (data_format c)"
    "export_plots (overrides env dirs cfg c) =
       assign (ClConfig.export_plots cfg) (export_plots c)"
    "make_report (overrides env dirs cfg c) =
       assign (ClConfig.make_report cfg) (make_report c)"
    "plots_force_flat (overrides env dirs cfg c) =
       (template (overrides env dirs cfg c) = ''simple'' \<or>
        assign (ClConfig.plots_force_flat cfg) (plots_force_flat c))"
    "plots_force_interactive (overrides env dirs cfg c) =
       assign (ClConfig.plots_force_interactive cfg) (plots_force_interactive c)"
    "strict (overrides env dirs cfg c) = assign (ClConfig.strict cfg) (strict c)"
    "lint (overrides env dirs cfg c) = assign (ClConfig.strict cfg) (lint c)"
    "development (overrides env dirs cfg c) =
       assign (ClConfig.development cfg) (development c)"
    "make_pdf (overrides env dirs cfg c) =
       assign (truthy bool_truth (ClConfig.make_pdf cfg)) (make_pdf c)"
    "simple_output (overrides env dirs cfg c) =
       (template (overrides env dirs cfg c) = ''simple'' \<or> simple_output c)"
    "filename (overrides env dirs cfg c) =
       assign (map_option Some (truthy nonempty (ClConfig.filename cfg))) (filename c)"
    "megaqc_upload (overrides env dirs cfg c) =
       assign (map_option Not (ClConfig.no_megaqc_upload cfg)) (megaqc_upload c)"
    "fn_clean_sample_names (overrides env dirs cfg c) =
       assign (ClConfig.fn_clean_sample_names cfg) (fn_clean_sample_names c)"
    "run_modules (overrides env dirs cfg c) =
       (if ClConfig.run_modules cfg \<noteq> [] then ClConfig.run_modules cfg else run_modules c)"
    "exclude_modules (overrides env dirs cfg c) =
       (if ClConfig.exclude_modules cfg \<noteq> [] then ClConfig.exclude_modules cfg
         else exclude_modules c)"
    "require_logs (overrides env dirs cfg c) =
       assign (ClConfig.require_logs cfg) (require_logs c)"
    "profile_runtime (overrides env dirs cfg c) =
       assign (ClConfig.profile_memory cfg)
        (assign (ClConfig.profile_runtime cfg) (profile_runtime c))"
    "profile_memory (overrides env dirs cfg c) =
       assign (ClConfig.profile_memory cfg) (profile_memory c)"
    "no_version_check (overrides env dirs cfg c) =
       assign (ClConfig.no_version_check cfg) (no_version_check c)"
    "custom_css_files (overrides env dirs cfg c) =
       custom_css_files c @ ClConfig.custom_css_files cfg"
    "module_order (overrides env dirs cfg c) =
       (if ClConfig.module_order cfg \<noteq> [] then ClConfig.module_order cfg else module_order c)"
    "top_modules (overrides env dirs cfg c) = top_modules c"
    "fn_clean_exts (overrides env dirs cfg c) =
       ClConfig.extra_fn_clean_exts cfg @ fn_clean_exts c"
    "fn_clean_trim (overrides env dirs cfg c) =
       ClConfig.extra_fn_clean_trim cfg @ fn_clean_trim c"
    "preserve_module_raw_data (overrides env dirs cfg c) =
       assign (ClConfig.preserve_module_raw_data cfg) (preserve_module_raw_data c)"
    "data_dump_file_write_raw (overrides env dirs cfg c) =
       assign (ClConfig.data_dump_file_write_raw cfg) (data_dump_file_write_raw c)"
    "ai_summary (overrides env dirs cfg c) =
       assign (ClConfig.ai_summary_full cfg)
        (assign (ClConfig.ai_summary cfg) (ai_summary c))"
    "ai_summary_full (overrides env dirs cfg c) =
       assign (ClConfig.ai_summary_full cfg) (ai_summary_full c)"
    "ai_provider (overrides env dirs cfg c) =
       assign (ClConfig.ai_provider cfg) (ai_provider c)"
    "ai_model (overrides env dirs cfg c) =
       assign (map_option Some (ClConfig.ai_model cfg)) (ai_model c)"
    "ai_custom_endpoint (overrides env dirs cfg c) =
       assign (map_option Some (ClConfig.ai_custom_endpoint cfg)) (ai_custom_endpoint c)"
    "ai_custom_context_window (overrides env dirs cfg c) =
       assign (map_option Some (ClConfig.ai_custom_context_window cfg)) (ai_custom_context_window c)"
    "ai_prompt_short (overrides env dirs cfg c) =
       assign (map_option Some (ClConfig.ai_prompt_short cfg)) (ai_prompt_short c)"
    "ai_prompt_full (overrides env dirs cfg c) =
       assign (map_option Some (ClConfig.ai_prompt_full cfg)) (ai_prompt_full c)"
    "no_ai (overrides env dirs cfg c) = assign (ClConfig.no_ai cfg) (no_ai c)"
    "export_plot_formats (overrides env dirs cfg c) =
       export_plot_formats c @
        (if development (overrides env dirs cfg c) \<and> ''png'' \<notin> set (export_plot_formats c)
         then [''png''] else [])"
    "analysis_dir (overrides env dirs cfg c) =
       (if dirs \<noteq> [] then dirs else analysis_dir c)"
    "file_list (overrides env dirs cfg c) = file_list c"
    "fn_ignore_files (overrides env dirs cfg c) = fn_ignore_files c"
    "fn_ignore_dirs (overrides env dirs cfg c) = fn_ignore_dirs c"
    "fn_ignore_paths (overrides env dirs cfg c) = fn_ignore_paths c"
    "sample_names_ignore (overrides env dirs cfg c) = sample_names_ignore c"
    "sample_names_only_include (overrides env dirs cfg c) =
       sample_names_only_include c"
    "kwargs (overrides env dirs cfg c) = kwargs c"
  by (simp_all add: overrides_def block_fields)

lemma config_after_check_fields:
  fixes c :: "'x config"
  shows
    "quiet (config_after_check cfg c) = quiet c"
    "no_ansi (config_after_check cfg c) = no_ansi c"
    "verbose (config_after_check cfg c) = verbose c"
    "loaded_user_files (config_after_check cfg c) = loaded_user_files c"
    "explicit_user_config_files (config_after_check cfg c) =
       explicit_user_config_files c"
    "template (config_after_check cfg c) = template c"
    "title (config_after_check cfg c) = title c"
    "report_comment (config_after_check cfg c) = report_comment c"
    "prepend_dirs (config_after_check cfg c) = prepend_dirs c"
    "prepend_dirs_depth (config_after_check cfg c) = prepend_dirs_depth c"
    "output_dir (config_after_check cfg c) = output_dir c"
    "use_filename_as_sample_name (config_after_check cfg c) =
       use_filename_as_sample_name c"
    "make_data_dir (config_after_check cfg c) = make_data_dir c"
    "force (config_after_check cfg c) = force c"
    "ignore_symlinks (config_after_check cfg c) = ignore_symlinks c"
    "zip_data_dir (config_after_check cfg c) = zip_data_dir c"
    "data_format (config_after_check cfg c) = data_format c"
    "export_plots (config_after_check cfg c) = export_plots c"
    "make_report (config_after_check cfg c) = make_report c"
    "plots_force_flat (config_after_check cfg c) = plots_force_flat c"
    "plots_force_interactive (config_after_check cfg c) =
       plots_force_interactive c"
    "strict (config_after_check cfg c) = strict c"
    "lint (config_after_check cfg c) = lint c"
    "development (config_after_check cfg c) = development c"
    "make_pdf (config_after_check cfg c) = make_pdf c"
    "simple_output (config_after_check cfg c) = simple_output c"
    "filename (config_after_check cfg c) = filename c"
    "megaqc_upload (config_after_check cfg c) = megaqc_upload c"
    "fn_clean_sample_names (config_after_check cfg c) = fn_clean_sample_names c"
    "run_modules (config_after_check cfg c) = run_modules c"
    "exclude_modules (config_after_check cfg c) = exclude_modules c"
    "require_logs (config_after_check cfg c) = require_logs c"
    "profile_runtime (config_after_check cfg c) = profile_runtime c"
    "profile_memory (config_after_check cfg c) = profile_memory c"
    "no_version_check (config_after_check cfg c) = no_version_check c"
    "custom_css_files (config_after_check cfg c) = custom_css_files c"
    "module_order (config_after_check cfg c) = module_order c"
    "top_modules (config_after_check cfg c) = top_modules c"
    "fn_clean_exts (config_after_check cfg c) = fn_clean_exts c"
    "fn_clean_trim (config_after_check cfg c) = fn_clean_trim c"
    "preserve_module_raw_data (config_after_check cfg c) =
       preserve_module_raw_data c"
    "data_dump_file_write_raw (config_after_check cfg c) =
       data_dump_file_write_raw c"
    "ai_summary (config_after_check cfg c) = ai_summary c"
    "ai_summary_full (config_after_check cfg c) = ai_summary_full c"
    "ai_provider (config_after_check cfg c) = ai_provider c"
    "ai_model (config_after_check cfg c) = ai_model c"
    "ai_custom_endpoint (config_after_check cfg c) = ai_custom_endpoint c"
    "ai_custom_context_window (config_after_check cfg c) =
       ai_custom_context_window c"
    "ai_prompt_short (config_after_check cfg c) = ai_prompt_short c"
    "ai_prompt_full (config_after_check cfg c) = ai_prompt_full c"
    "no_ai (config_after_check cfg c) = no_ai c"
    "export_plot_formats (config_after_check cfg c) = export_plot_formats c"
    "analysis_dir (config_after_check cfg c) = analysis_dir c"
    "file_list (config_after_check cfg c) =
       assign (ClConfig.file_list cfg) (file_list c)"
    "fn_ignore_files (config_after_check cfg c) =
       fn_ignore_files c @ ClConfig.ignore cfg"
    "fn_ignore_dirs (config_after_check cfg c) =
       fn_ignore_dirs c @ ClConfig.ignore cfg"
    "fn_ignore_paths (config_after_check cfg c) =
       fn_ignore_paths c @ ClConfig.ignore cfg"
    "sample_names_ignore (config_after_check cfg c) =
       sample_names_ignore c @ ClConfig.ignore_samples cfg"
    "sample_names_only_include (config_after_check cfg c) =
       sample_names_only_include c @ ClConfig.only_samples cfg"
    "kwargs (config_after_check cfg c) =
       assign (truthy nonempty (ClConfig.unknown_options cfg)) (kwargs c)"
    "sections (config_after_check cfg c) = sections c"
  by (simp_all add: config_after_check_def extend_ignores_def plug_in_options_def
      through_statements)

lemma config_pass_early_fields:
  fixes c :: "'x config"
  shows
    "quiet (config_pass env dirs cfg c) = quiet (config_before_check env dirs cfg c)"
    "no_ansi (config_pass env dirs cfg c) = no_ansi (config_before_check env dirs cfg c)"
    "verbose (config_pass env dirs cfg c) = verbose (config_before_check env dirs cfg c)"
    "loaded_user_files (config_pass env dirs cfg c) = loaded_user_files (config_before_check env dirs cfg c)"
    "explicit_user_config_files (config_pass env dirs cfg c) = explicit_user_config_files (config_before_check env dirs cfg c)"
    "template (config_pass env dirs cfg c) = template (config_before_check env dirs cfg c)"
    "title (config_pass env dirs cfg c) = title (config_before_check env dirs cfg c)"
    "report_comment (config_pass env dirs cfg c) = report_comment (config_before_check env dirs cfg c)"
    "prepend_dirs (config_pass env dirs cfg c) = prepend_dirs (config_before_check env dirs cfg c)"
    "prepend_dirs_depth (config_pass env dirs cfg c) = prepend_dirs_depth (config_before_check env dirs cfg c)"
    "output_dir (config_pass env dirs cfg c) = output_dir (config_before_check env dirs cfg c)"
    "use_filename_as_sample_name (config_pass env dirs cfg c) = use_filename_as_sample_name (config_before_check env dirs cfg c)"
    "make_data_dir (config_pass env dirs cfg c) = make_data_dir (config_before_check env dirs cfg c)"
    "force (config_pass env dirs cfg c) = force (config_before_check env dirs cfg c)"
    "ignore_symlinks (config_pass env dirs cfg c) = ignore_symlinks (config_before_check env dirs cfg c)"
    "zip_data_dir (config_pass env dirs cfg c) = zip_data_dir (config_before_check env dirs cfg c)"
    "data_format (config_pass env dirs cfg c) = data_format (config_before_check env dirs cfg c)"
    "export_plots (config_pass env dirs cfg c) = export_plots (config_before_check env dirs cfg c)"
    "make_report (config_pass env dirs cfg c) = make_report (config_before_check env dirs cfg c)"
    "plots_force_flat (config_pass env dirs cfg c) = plots_force_flat (config_before_check env dirs cfg c)"
    "plots_force_interactive (config_pass env dirs cfg c) = plots_force_interactive (config_before_check env dirs cfg c)"
    "strict (config_pass env dirs cfg c) = strict (config_before_check env dirs cfg c)"
    "lint (config_pass env dirs cfg c) = lint (config_before_check env dirs cfg c)"
    "development (config_pass env dirs cfg c) = development (config_before_check env dirs cfg c)"
    "make_pdf (config_pass env dirs cfg c) = make_pdf (config_before_check env dirs cfg c)"
    "simple_output (config_pass env dirs cfg c) = simple_output (config_before_check env dirs cfg c)"
    "filename (config_pass env dirs cfg c) = filename (config_before_check env dirs cfg c)"
    "megaqc_upload (config_pass env dirs cfg c) = megaqc_upload (config_before_check env dirs cfg c)"
    "fn_clean_sample_names (config_pass env dirs cfg c) = fn_clean_sample_names (config_before_check env dirs cfg c)"
    "run_modules (config_pass env dirs cfg c) = run_modules (config_before_check env dirs cfg c)"
    "exclude_modules (config_pass env dirs cfg c) = exclude_modules (config_before_check env dirs cfg c)"
    "require_logs (config_pass env dirs cfg c) = require_logs (config_before_check env dirs cfg c)"
    "profile_runtime (config_pass env dirs cfg c) = profile_runtime (config_before_check env dirs cfg c)"
    "profile_memory (config_pass env dirs cfg c) = profile_memory (config_before_check env dirs cfg c)"
    "no_version_check (config_pass env dirs cfg c) = no_version_check (config_before_check env dirs cfg c)"
    "custom_css_files (config_pass env dirs cfg c) = custom_css_files (config_before_check env dirs cfg c)"
    "module_order (config_pass env dirs cfg c) = module_order (config_before_check env dirs cfg c)"
    "top_modules (config_pass env dirs cfg c) = top_modules (config_before_check env dirs cfg c)"
    "fn_clean_exts (config_pass env dirs cfg c) = fn_clean_exts (config_before_check env dirs cfg c)"
    "fn_clean_trim (config_pass env dirs cfg c) = fn_clean_trim (config_before_check env dirs cfg c)"
    "preserve_module_raw_data (config_pass env dirs cfg c) = preserve_module_raw_data (config_before_check env dirs cfg c)"
    "data_dump_file_write_raw (config_pass env dirs cfg c) = data_dump_file_write_raw (config_before_check env dirs cfg c)"
    "ai_summary (config_pass env dirs cfg c) = ai_summary (config_before_check env dirs cfg c)"
    "ai_summary_full (config_pass env dirs cfg c) = ai_summary_full (config_before_check env dirs cfg c)"
    "ai_provider (config_pass env dirs cfg c) = ai_provider (config_before_check env dirs cfg c)"
    "ai_model (config_pass env dirs cfg c) = ai_model (config_before_check env dirs cfg c)"
    "ai_custom_endpoint (config_pass env dirs cfg c) = ai_custom_endpoint (config_before_check env dirs cfg c)"
    "ai_custom_context_window (config_pass env dirs cfg c) = ai_custom_context_window (config_before_check env dirs cfg c)"
    "ai_prompt_short (config_pass env dirs cfg c) = ai_prompt_short (config_before_check env dirs cfg c)"
    "ai_prompt_full (config_pass env dirs cfg c) = ai_prompt_full (config_before_check env dirs cfg c)"
    "no_ai (config_pass env dirs cfg c) = no_ai (config_before_check env dirs cfg c)"
    "export_plot_formats (config_pass env dirs cfg c) = export_plot_formats (config_before_check env dirs cfg c)"
    "analysis_dir (config_pass env dirs cfg c) = analysis_dir (config_before_check env dirs cfg c)"
    "sections (config_pass env dirs cfg c) = sections (config_before_check env dirs cfg c)"
  by (simp_all add: config_pass_def Let_def config_after_check_fields)

section \<open>What a pass leaves in the state\<close>

lemma config_of:
  "config (on_config f w) = f (config w)"
  "config (emit c w) = config w"
  "config (invoke c f w) = f (config w)"
  "config (mqc_trigger name w) = config w"
  "config (init_log b w) = config w"
  "config (print_intro w) = config w"
  "config (prep_module_configs w) = config w"
  by (simp_all add: on_config_def emit_def invoke_def mqc_trigger_def init_log_def
      print_intro_def prep_module_configs_def)

lemma calls_of:
  "calls (on_config f w) = calls w"
  "calls (emit c w) = calls w @ [c]"
  "calls (invoke c f w) = calls w @ [c]"
  "calls (mqc_trigger name w) = calls w @ [Trigger name (config w)]"
  "calls (init_log b w) = calls w @ [InitLog b]"
  "calls (print_intro w) = calls w @ [PrintIntro]"
  "calls (prep_module_configs w) = calls w"
  by (simp_all add: on_config_def emit_def invoke_def mqc_trigger_def init_log_def
      print_intro_def prep_module_configs_def)

lemma report_of:
  "report (on_config f w) = report w"
  "report (emit c w) = report w"
  "report (invoke c f w) = report w"
  "report (mqc_trigger name w) = report w"
  "report (init_log b w) = report w"
  "report (print_intro w) = report w"
  by (simp_all add: on_config_def emit_def invoke_def mqc_trigger_def init_log_def
      print_intro_def)

lemma of_optional:
  "config (if_set v (\<lambda>x. invoke (c x) (f x)) w) = if_set v f (config w)"
  "calls (if_set v (\<lambda>x. invoke (c x) (f x)) w) = calls w @ optional_call v c"
  "report (if_set v (\<lambda>x. invoke (c x) (f x)) w) = report w"
  "config (if_set u (\<lambda>_. print_intro) w) = config w"
  "calls (if_set u (\<lambda>_. print_intro) w) = calls w @ optional_call u (\<lambda>_. PrintIntro)"
  "report (if_set u (\<lambda>_. print_intro) w) = report w"
  by (simp_all add: if_set_def optional_call_def config_of calls_of report_of split: option.split)

lemma of_loop:
  "config (run (map (\<lambda>p. invoke (c p) (f p)) ps) w) = run (map f ps) (config w)"
  "calls (run (map (\<lambda>p. invoke (c p) (f p)) ps) w) = calls w @ map c ps"
  "report (run (map (\<lambda>p. invoke (c p) (f p)) ps) w) = report w"
  by (induction ps arbitrary: w) (simp_all add: config_of calls_of report_of)

lemma optional_call_given: "optional_call (given b x) c = (if b then [c x] else [])"
  by (simp add: optional_call_def given_def)

lemma load_phase_leaves:
  "config (load_phase env cfg log_to_file print_intro_fn w) = config_load_phase env cfg (config w)"
  "calls (load_phase env cfg log_to_file print_intro_fn w) =
     calls w @ load_calls env cfg log_to_file print_intro_fn (config w)"
  "report (load_phase env cfg log_to_file print_intro_fn w) = report w"
  by (simp_all add: load_phase_def config_load_phase_def config_found_def config_at_hook_def
      load_calls_def reload_explicit_def load_session_files_def if_cond_if_set
      config_of calls_of report_of of_optional of_loop optional_call_given)

lemma sample_name_files_leaves:
  "config (sample_name_files env cfg w) = config_sample_name_files env cfg (config w)"
  "calls (sample_name_files env cfg w) = calls w @ sample_calls cfg"
  "report (sample_name_files env cfg w) = report w"
  by (simp_all add: sample_name_files_def config_sample_name_files_def sample_calls_def
      if_truthy_if_set config_of calls_of report_of of_optional)

lemma before_check_leaves:
  "config (before_check env dirs cfg log_to_file print_intro_fn w) =
     config_before_check env dirs cfg (config w)"
  "calls (before_check env dirs cfg log_to_file print_intro_fn w) =
     calls w @ load_calls env cfg log_to_file print_intro_fn (config w) @ sample_calls cfg"
  "report (before_check env dirs cfg log_to_file print_intro_fn w) = report w"
  by (simp_all add: before_check_def config_before_check_def overrides_def
      load_phase_leaves sample_name_files_leaves config_of calls_of report_of)

lemma after_check_leaves:
  "config (after_check cfg w) = plug_in_options cfg (extend_ignores cfg (config w))"
  "calls (after_check cfg w) =
     calls w @ [Trigger ''config_loaded'' (plug_in_options cfg (extend_ignores cfg (config w))),
                Trigger ''execution_start'' (plug_in_options cfg (extend_ignores cfg (config w)))]"
  by (simp_all add: after_check_def config_of calls_of)

lemma check_file_list_cases:
  "check_file_list cfg w =
     (if too_many_dirs cfg (config w) then Inl (RunError file_list_message, w)
      else Inr (on_config (if_set (ClConfig.file_list cfg) (\<lambda>v c. c\<lparr>file_list := v\<rparr>)) w))"
  by (cases "ClConfig.file_list cfg")
     (simp_all add: check_file_list_def too_many_dirs_def on_config_def if_set_def)

lemma too_many_dirs_file_list:
  "too_many_dirs cfg (c\<lparr>file_list := v\<rparr>) = too_many_dirs cfg c"
  by (simp add: too_many_dirs_def)

lemma update_config_cases:
  "update_config env dirs cfg0 log_to_file print_intro_fn w =
     (if too_many_dirs (cfg_in_use dirs cfg0)
           (config_before_check env dirs (cfg_in_use dirs cfg0) (config w))
      then Inl (RunError file_list_message,
                before_check env dirs (cfg_in_use dirs cfg0) log_to_file print_intro_fn w)
      else Inr (after_check (cfg_in_use dirs cfg0)
                 (on_config (if_set (ClConfig.file_list (cfg_in_use dirs cfg0))
                               (\<lambda>v c. c\<lparr>file_list := v\<rparr>))
                   (before_check env dirs (cfg_in_use dirs cfg0) log_to_file print_intro_fn w))))"
  by (simp add: update_config_def Let_def check_file_list_cases before_check_leaves)

lemma raised_update_config:
  "raised (update_config env dirs cfg0 log_to_file print_intro_fn w) =
     too_many_dirs (cfg_in_use dirs cfg0)
       (config_before_check env dirs (cfg_in_use dirs cfg0) (config w))"
  by (simp add: update_config_cases)

lemma error_update_config:
  "update_config env dirs cfg0 log_to_file print_intro_fn w = Inl (e, w') \<Longrightarrow>
     e = RunError file_list_message"
  by (simp add: update_config_cases split: if_splits)

lemma config_update_config:
  "config (state_after (update_config env dirs cfg0 log_to_file print_intro_fn w)) =
     config_pass env dirs (cfg_in_use dirs cfg0) (config w)"
  by (simp add: update_config_cases config_pass_def Let_def config_after_check_def
      before_check_leaves after_check_leaves config_of)

lemma calls_update_config:
  "calls (state_after (update_config env dirs cfg0 log_to_file print_intro_fn w)) =
     calls w @
     load_calls env (cfg_in_use dirs cfg0) log_to_file print_intro_fn (config w) @
     sample_calls (cfg_in_use dirs cfg0) @
     (if too_many_dirs (cfg_in_use dirs cfg0)
           (config_before_check env dirs (cfg_in_use dirs cfg0) (config w))
      then []
      else [Trigger ''config_loaded'' (config_pass env dirs (cfg_in_use dirs cfg0) (config w)),
            Trigger ''execution_start'' (config_pass env dirs (cfg_in_use dirs cfg0) (config w))])"
  by (simp add: update_config_cases config_pass_def Let_def config_after_check_def
      before_check_leaves after_check_leaves config_of calls_of)

lemma report_update_config:
  "report (state_after (update_config env dirs cfg0 log_to_file print_intro_fn w)) =
     (if too_many_dirs (cfg_in_use dirs cfg0)
           (config_before_check env dirs (cfg_in_use dirs cfg0) (config w))
      then report w
      else (report w)\<lparr>
             report.top_modules :=
               map as_dict (top_modules (config_before_check env dirs (cfg_in_use dirs cfg0) (config w))),
             report.module_order :=
               map as_dict (module_order (config_before_check env dirs (cfg_in_use dirs cfg0) (config w)))\<rparr>)"
  by (simp add: update_config_cases after_check_def prep_module_configs_def
      before_check_leaves config_of report_of extend_ignores_def through_statements)

text \<open>A pass reads the configuration it starts from through \<open>load_defaults\<close> only.\<close>

lemma config_pass_cong:
  "load_defaults env c = load_defaults env c' \<Longrightarrow>
     config_pass env dirs cfg c = config_pass env dirs cfg c'"
  by (simp add: config_pass_def config_before_check_def config_load_phase_def
      config_found_def config_at_hook_def)

lemma config_before_check_cong:
  "load_defaults env c = load_defaults env c' \<Longrightarrow>
     config_before_check env dirs cfg c = config_before_check env dirs cfg c'"
  by (simp add: config_before_check_def config_load_phase_def config_found_def
      config_at_hook_def)

text \<open>The fields of the configuration after a pass, from the loaded configuration.\<close>

lemmas pass_fields =
  config_update_config config_pass_early_fields config_before_check_def overrides_fields
  load_phase_leaves assign_simps truthy_simps

lemma pass_late_fields:
  fixes c :: "'x config"
  shows
    "F (config_pass env dirs cfg c) =
       (if too_many_dirs cfg (config_before_check env dirs cfg c)
        then F (config_before_check env dirs cfg c)
        else F (config_after_check cfg (config_before_check env dirs cfg c)))"
  by (simp add: config_pass_def Let_def)

lemmas late_fields =
  pass_late_fields [of file_list] pass_late_fields [of kwargs]
  pass_late_fields [of fn_ignore_files] pass_late_fields [of fn_ignore_dirs]
  pass_late_fields [of fn_ignore_paths] pass_late_fields [of sample_names_ignore]
  pass_late_fields [of sample_names_only_include]

text \<open>The same for the fields that lines 245 to 263 write, when the pass returns.\<close>

lemmas returned_fields =
  config_update_config raised_update_config late_fields config_after_check_fields
  config_before_check_def overrides_fields load_phase_leaves assign_simps truthy_simps


section \<open>The example, evaluated\<close>

lemma run_unchanged: "run (map (\<lambda>p c. c) ps) c = c"
  by (induction ps) simp_all

lemma example_loaded:
  "config_load_phase example_env cfg c =
     (reset_logger cfg example_config)\<lparr>loaded_user_files := {}\<rparr>"
  by (simp add: config_load_phase_def config_found_def config_at_hook_def example_env_def
      run_unchanged if_cond_def)

lemma cfg_in_use_Some: "cfg_in_use dirs (Some cfg) = cfg"
  by (cases dirs) simp_all



section \<open>The claims\<close>

text \<open>
  In the theorems, \<open>cfg_in_use dirs cfg0\<close> is the override record of the pass,
  \<open>config (load_phase \<dots> w)\<close> the configuration as the defaults and the files left it, before
  the record is applied, and \<open>config (state_after (update_config \<dots> w))\<close> the configuration
  after the pass, whether the pass returned or raised.
\<close>

subsection \<open>C1: unset and set fields of the override record\<close>




subsection \<open>C2: \<open>file_list\<close> and the analysis directories\<close>

text \<open>
  C2 says that a pass raises if and only if the \<open>file_list\<close> flag is requested and there
  is more than one analysis directory, and that with exactly one analysis directory and
  \<open>file_list = True\<close> the call succeeds. Line 242 tests \<open>is not None\<close>: a record with
  \<open>file_list = False\<close> and two directories raises as well. And line 241 copies all the
  positional arguments: in the call \<open>update_config(cfg, "a")\<close>, where the record is the
  first positional argument, \<open>config.analysis_dir\<close> has two entries, and with
  \<open>file_list = True\<close> and this one directory the call raises.
\<close>

theorem file_list_false_counterexample:
  "ClConfig.file_list (cfg_in_use [PathArg ''a'', PathArg ''b''] (Some file_list_off_cfg)) =
     Some False \<and>
   raised (update_config example_env [PathArg ''a'', PathArg ''b''] (Some file_list_off_cfg)
     False None example_state) \<and>
   ClConfig.file_list (cfg_in_use [CfgArg file_list_cfg, PathArg ''a''] None) = Some True \<and>
   raised (update_config example_env [CfgArg file_list_cfg, PathArg ''a''] None
     False None example_state)"
  by (simp add: raised_update_config too_many_dirs_def config_before_check_def
      overrides_fields file_list_off_cfg_def file_list_cfg_def ClConfig_init_def)

text \<open>
  C2, amended. A pass raises if and only if \<open>file_list\<close> is set in the override record, to
  \<open>True\<close> or to \<open>False\<close>, and \<open>config.analysis_dir\<close>, as line 241 leaves it, has more than
  one entry; what it raises is the \<open>RunError\<close> of line 244. With \<open>file_list = True\<close> and
  one entry in that list the pass returns and \<open>config.file_list\<close> is true; a record that
  leaves \<open>file_list\<close> unset never raises. The list of line 241 is the tuple of positional
  arguments when there are any, a record passed as the first of them included.
\<close>

theorem file_list_error:
  assumes "cfg = cfg_in_use dirs cfg0"
      and "r = update_config env dirs cfg0 log_to_file print_intro_fn w"
      and "resulting = analysis_dir (config (before_check env dirs cfg log_to_file print_intro_fn w))"
  shows "(raised r \<longleftrightarrow> ClConfig.file_list cfg \<noteq> None \<and> length resulting > 1) \<and>
         (\<forall>e w'. r = Inl (e, w') \<longrightarrow> e = RunError file_list_message) \<and>
         (ClConfig.file_list cfg = Some True \<and> length resulting = 1 \<longrightarrow>
            \<not> raised r \<and> file_list (config (state_after r))) \<and>
         (ClConfig.file_list cfg = None \<longrightarrow> \<not> raised r) \<and>
         (dirs \<noteq> [] \<longrightarrow> resulting = dirs)"
proof -
  have iff: "raised r \<longleftrightarrow> ClConfig.file_list cfg \<noteq> None \<and> length resulting > 1"
    unfolding assms by (simp add: raised_update_config too_many_dirs_def before_check_leaves)
  have err: "\<forall>e w'. r = Inl (e, w') \<longrightarrow> e = RunError file_list_message"
    unfolding assms by (auto dest: error_update_config)
  have one: "ClConfig.file_list cfg = Some True \<and> length resulting = 1 \<longrightarrow>
      \<not> raised r \<and> file_list (config (state_after r))"
    unfolding assms
    by (simp add: raised_update_config too_many_dirs_def before_check_leaves
        config_update_config late_fields config_after_check_fields assign_simps)
  have args: "dirs \<noteq> [] \<longrightarrow> resulting = dirs"
    unfolding assms
    by (simp add: before_check_leaves config_before_check_def overrides_fields)
  from iff err one args show ?thesis by simp
qed

text \<open>One positional argument: the pass returns. Two: it raises.\<close>

theorem file_list_error_witness:
  "ClConfig.file_list (cfg_in_use [PathArg ''files.txt''] (Some file_list_cfg)) = Some True \<and>
   length (analysis_dir (config (before_check example_env [PathArg ''files.txt'']
     file_list_cfg False None example_state))) = 1 \<and>
   \<not> raised (update_config example_env [PathArg ''files.txt''] (Some file_list_cfg) False None
     example_state) \<and>
   file_list (config (state_after (update_config example_env [PathArg ''files.txt'']
     (Some file_list_cfg) False None example_state))) \<and>
   raised (update_config example_env [PathArg ''a'', PathArg ''b''] (Some file_list_cfg) False
     None example_state)"
proof -
  have flag: "ClConfig.file_list file_list_cfg = Some True"
    by (simp add: file_list_cfg_def ClConfig_init_def)
  have one: "analysis_dir (config (before_check example_env [PathArg ''files.txt'']
      file_list_cfg False None example_state)) = [PathArg ''files.txt'']"
    by (simp add: before_check_leaves config_before_check_def overrides_fields)
  have two: "analysis_dir (config (before_check example_env [PathArg ''a'', PathArg ''b'']
      file_list_cfg False None example_state)) = [PathArg ''a'', PathArg ''b'']"
    by (simp add: before_check_leaves config_before_check_def overrides_fields)
  from file_list_error [OF refl refl refl, of example_env "[PathArg ''files.txt'']"
      "Some file_list_cfg" False None example_state]
    file_list_error [OF refl refl refl, of example_env "[PathArg ''a'', PathArg ''b'']"
      "Some file_list_cfg" False None example_state]
  show ?thesis using flag one two by simp
qed

subsection \<open>C3: the same record twice\<close>

text \<open>
  C3. With \<open>load_defaults\<close> resetting the configuration to the built-in defaults, a
  second pass with the same arguments, started in the state that the first has left,
  leaves the configuration and the report lists that the first has left, and raises if
  and only if the first did. More generally the configuration that a pass leaves does
  not depend on the state that the pass starts from: nothing of an earlier pass, with
  the same or with another record, is found in it.
\<close>

theorem same_record_twice:
  assumes "E = reset_to defaults env"
      and "first = update_config E dirs cfg0 log_to_file print_intro_fn w"
      and "second = update_config E dirs cfg0 log_to_file print_intro_fn (state_after first)"
  shows "config (state_after second) = config (state_after first) \<and>
         report (state_after second) = report (state_after first) \<and>
         raised second = raised first \<and>
         (\<forall>w'. config (state_after (update_config E dirs cfg0 log_to_file print_intro_fn w')) =
               config (state_after first))"
proof -
  have reset: "load_defaults E c = load_defaults E c'" for c c'
    unfolding assms by (simp add: reset_to_def)
  have pass: "config_pass E dirs cfg c = config_pass E dirs cfg c'" for cfg c c'
    by (rule config_pass_cong) (rule reset)
  have check: "config_before_check E dirs cfg c = config_before_check E dirs cfg c'" for cfg c c'
    by (rule config_before_check_cong) (rule reset)
  have any: "config (state_after (update_config E dirs cfg0 log_to_file print_intro_fn w')) =
      config (state_after first)" for w'
    unfolding assms(2) config_update_config by (rule pass)
  have again: "raised second = raised first"
    unfolding assms(2,3) raised_update_config
    by (simp add: check [of _ "config (state_after (update_config E dirs cfg0 log_to_file
        print_intro_fn w))" "config w"])
  have lists: "report (state_after second) = report (state_after first)"
    unfolding assms(2,3) report_update_config
    by (simp add: check [of _ "config (state_after (update_config E dirs cfg0 log_to_file
        print_intro_fn w))" "config w"] report_update_config)
  from any [of "state_after first"] any again lists show ?thesis
    unfolding assms(3) by simp
qed

text \<open>
  In the example the second pass leaves \<open>*.bak\<close> and \<open>*.tmp\<close> in \<open>fn_ignore_files\<close>, as
  the first does, and not \<open>*.tmp\<close> twice.
\<close>

theorem same_record_twice_witness:
  "config (state_after (update_config (reset_to example_config example_env) [PathArg ''data'']
     (Some ignore_cfg) False None
     (state_after (update_config (reset_to example_config example_env) [PathArg ''data'']
        (Some ignore_cfg) False None example_state)))) =
   config (state_after (update_config (reset_to example_config example_env) [PathArg ''data'']
     (Some ignore_cfg) False None example_state)) \<and>
   fn_ignore_files (config (state_after (update_config (reset_to example_config example_env)
     [PathArg ''data''] (Some ignore_cfg) False None
     (state_after (update_config (reset_to example_config example_env) [PathArg ''data'']
        (Some ignore_cfg) False None example_state))))) = [''*.bak'', ''*.tmp'']"
proof -
  have same: "reset_to example_config example_env = example_env"
    by (simp add: reset_to_def example_env_def)
  have once: "fn_ignore_files (config (state_after (update_config example_env
      [PathArg ''data''] (Some ignore_cfg) False None example_state))) = [''*.bak'', ''*.tmp'']"
    by (simp add: returned_fields too_many_dirs_def example_loaded reset_logger_fields
        example_config_def ignore_cfg_def ClConfig_init_def)
  from same_record_twice [OF refl refl refl, of example_config example_env
      "[PathArg ''data'']" "Some ignore_cfg" False None example_state]
  show ?thesis using once by (simp add: same)
qed

subsection \<open>C4: the simple template\<close>

text \<open>
  C4. When the template of the configuration after a pass is \<open>simple\<close>, however it came
  to be (the record's \<open>template\<close>, its \<open>make_pdf\<close>, or a loaded file), \<open>plots_force_flat\<close>
  and \<open>simple_output\<close> are both true after the pass.
\<close>

theorem simple_template_forces_flat:
  assumes "template (config (state_after
             (update_config env dirs cfg0 log_to_file print_intro_fn w))) = ''simple''"
  shows "plots_force_flat (config (state_after
           (update_config env dirs cfg0 log_to_file print_intro_fn w))) \<and>
         simple_output (config (state_after
           (update_config env dirs cfg0 log_to_file print_intro_fn w)))"
  using assms by (simp add: pass_fields)

text \<open>In the example the template is \<open>default\<close> until \<open>make_pdf\<close> sets it.\<close>

theorem simple_template_forces_flat_witness:
  "template (config (state_after
     (update_config example_env [PathArg ''data''] (Some pdf_cfg) False None example_state))) =
     ''simple'' \<and>
   plots_force_flat (config (state_after
     (update_config example_env [PathArg ''data''] (Some pdf_cfg) False None example_state))) \<and>
   simple_output (config (state_after
     (update_config example_env [PathArg ''data''] (Some pdf_cfg) False None example_state)))"
proof -
  have simple: "template (config (state_after
      (update_config example_env [PathArg ''data''] (Some pdf_cfg) False None example_state))) =
      ''simple''"
    by (simp add: pass_fields pdf_cfg_def ClConfig_init_def truthy_def bool_truth_def assign_def)
  from simple_template_forces_flat [OF simple] simple show ?thesis by simp
qed

subsection \<open>C5: \<open>ai_summary_full\<close>\<close>

text \<open>
  C5 says that a set \<open>ai_summary_full\<close>, true or false, forces \<open>ai_summary\<close> to true.
  Line 219 assigns the value of \<open>ai_summary_full\<close> to \<open>ai_summary\<close>: a record with
  \<open>ai_summary = True\<close> and \<open>ai_summary_full = False\<close> leaves \<open>ai_summary\<close> false.
\<close>

theorem ai_summary_full_false_counterexample:
  "ClConfig.ai_summary_full (cfg_in_use [PathArg ''data''] (Some ai_full_off_cfg)) = Some False \<and>
   \<not> ai_summary (config (state_after
     (update_config example_env [PathArg ''data''] (Some ai_full_off_cfg) False None
        example_state)))"
  by (simp add: pass_fields ai_full_off_cfg_def ClConfig_init_def assign_def)

text \<open>
  C5, amended. When \<open>ai_summary_full\<close> is set in the override record, \<open>ai_summary\<close> and
  \<open>ai_summary_full\<close> both hold its value after the pass; both are true when it is true.
\<close>

theorem ai_summary_full_sets_both:
  assumes "ClConfig.ai_summary_full (cfg_in_use dirs cfg0) = Some v"
  shows "ai_summary (config (state_after
           (update_config env dirs cfg0 log_to_file print_intro_fn w))) = v \<and>
         ai_summary_full (config (state_after
           (update_config env dirs cfg0 log_to_file print_intro_fn w))) = v"
  using assms by (simp add: pass_fields)

theorem ai_summary_full_sets_both_witness:
  "ClConfig.ai_summary_full (cfg_in_use [PathArg ''data''] (Some ai_full_on_cfg)) = Some True \<and>
   ai_summary (config (state_after
     (update_config example_env [PathArg ''data''] (Some ai_full_on_cfg) False None
        example_state))) \<and>
   ai_summary_full (config (state_after
     (update_config example_env [PathArg ''data''] (Some ai_full_on_cfg) False None
        example_state)))"
proof -
  have set: "ClConfig.ai_summary_full (cfg_in_use [PathArg ''data''] (Some ai_full_on_cfg)) =
      Some True"
    by (simp add: ai_full_on_cfg_def ClConfig_init_def)
  from ai_summary_full_sets_both [OF set, of example_env False None example_state] set
  show ?thesis by simp
qed

subsection \<open>C6: \<open>profile_memory\<close>\<close>

text \<open>
  C6 says that a set \<open>profile_memory\<close>, true or false, forces \<open>profile_runtime\<close> to true.
  Line 201 assigns the value of \<open>profile_memory\<close> to \<open>profile_runtime\<close>: a record with
  \<open>profile_runtime = True\<close> and \<open>profile_memory = False\<close> leaves \<open>profile_runtime\<close> false.
\<close>

theorem profile_memory_false_counterexample:
  "ClConfig.profile_memory (cfg_in_use [PathArg ''data''] (Some memory_off_cfg)) = Some False \<and>
   \<not> profile_runtime (config (state_after
     (update_config example_env [PathArg ''data''] (Some memory_off_cfg) False None
        example_state)))"
  by (simp add: pass_fields memory_off_cfg_def ClConfig_init_def assign_def)

text \<open>
  C6, amended. When \<open>profile_memory\<close> is set in the override record, \<open>profile_runtime\<close>
  and \<open>profile_memory\<close> both hold its value after the pass; both are true when it is true.
\<close>

theorem profile_memory_sets_both:
  assumes "ClConfig.profile_memory (cfg_in_use dirs cfg0) = Some v"
  shows "profile_runtime (config (state_after
           (update_config env dirs cfg0 log_to_file print_intro_fn w))) = v \<and>
         profile_memory (config (state_after
           (update_config env dirs cfg0 log_to_file print_intro_fn w))) = v"
  using assms by (simp add: pass_fields)

theorem profile_memory_sets_both_witness:
  "ClConfig.profile_memory (cfg_in_use [PathArg ''data''] (Some memory_on_cfg)) = Some True \<and>
   profile_runtime (config (state_after
     (update_config example_env [PathArg ''data''] (Some memory_on_cfg) False None
        example_state))) \<and>
   profile_memory (config (state_after
     (update_config example_env [PathArg ''data''] (Some memory_on_cfg) False None
        example_state)))"
proof -
  have set: "ClConfig.profile_memory (cfg_in_use [PathArg ''data''] (Some memory_on_cfg)) =
      Some True"
    by (simp add: memory_on_cfg_def ClConfig_init_def)
  from profile_memory_sets_both [OF set, of example_env False None example_state] set
  show ?thesis by simp
qed

subsection \<open>C7: ignore patterns\<close>

text \<open>
  C7. A pass that returns extends the three lists of ignore patterns: each of
  \<open>fn_ignore_files\<close>, \<open>fn_ignore_dirs\<close> and \<open>fn_ignore_paths\<close> is afterwards the list it
  was when the record was applied, entries and order kept, followed by the entries of
  the record's \<open>ignore\<close>. (A pass that raises does so at line 244, before the lists are
  extended.)
\<close>

theorem ignore_extends_lists:
  assumes "cfg = cfg_in_use dirs cfg0"
      and "loaded = config (load_phase env cfg log_to_file print_intro_fn w)"
      and "final = config (state_after (update_config env dirs cfg0 log_to_file print_intro_fn w))"
      and "\<not> raised (update_config env dirs cfg0 log_to_file print_intro_fn w)"
  shows "fn_ignore_files final = fn_ignore_files loaded @ ClConfig.ignore cfg \<and>
         fn_ignore_dirs final = fn_ignore_dirs loaded @ ClConfig.ignore cfg \<and>
         fn_ignore_paths final = fn_ignore_paths loaded @ ClConfig.ignore cfg"
  using assms(4) unfolding assms(1-3) by (simp add: returned_fields)

text \<open>The example of the specification: \<open>*.bak\<close> in the lists, \<open>*.tmp\<close> in the record.\<close>

theorem ignore_extends_lists_witness:
  "\<not> raised (update_config example_env [PathArg ''data''] (Some ignore_cfg) False None
       example_state) \<and>
   fn_ignore_files (config (load_phase example_env ignore_cfg False None example_state)) =
     [''*.bak''] \<and>
   ClConfig.ignore ignore_cfg = [''*.tmp''] \<and>
   fn_ignore_files (config (state_after (update_config example_env [PathArg ''data'']
     (Some ignore_cfg) False None example_state))) = [''*.bak'', ''*.tmp''] \<and>
   fn_ignore_dirs (config (state_after (update_config example_env [PathArg ''data'']
     (Some ignore_cfg) False None example_state))) = [''*.bak'', ''*.tmp''] \<and>
   fn_ignore_paths (config (state_after (update_config example_env [PathArg ''data'']
     (Some ignore_cfg) False None example_state))) = [''*.bak'', ''*.tmp'']"
proof -
  have returns: "\<not> raised (update_config example_env [PathArg ''data''] (Some ignore_cfg)
      False None example_state)"
    by (simp add: raised_update_config too_many_dirs_def ignore_cfg_def ClConfig_init_def)
  have fields: "ClConfig.ignore ignore_cfg = [''*.tmp'']"
    by (simp add: ignore_cfg_def ClConfig_init_def)
  have before:
    "fn_ignore_files (config (load_phase example_env ignore_cfg False None example_state)) =
       [''*.bak'']"
    "fn_ignore_dirs (config (load_phase example_env ignore_cfg False None example_state)) =
       [''*.bak'']"
    "fn_ignore_paths (config (load_phase example_env ignore_cfg False None example_state)) =
       [''*.bak'']"
    by (simp_all add: load_phase_leaves example_loaded reset_logger_fields example_config_def)
  from ignore_extends_lists [OF refl refl refl returns]
  show ?thesis using returns fields before by simp
qed

subsection \<open>C8: \<open>png\<close> in development mode\<close>

text \<open>
  C8. When \<open>development\<close> is true after a pass and \<open>export_plot_formats\<close>, as the defaults
  and the files left it, has no \<open>png\<close>, the list after the pass is that list followed
  by \<open>png\<close>, and holds \<open>png\<close> exactly once. A list that has \<open>png\<close> already is left as it
  is, so no pass adds a second \<open>png\<close>: the state \<open>w\<close> the pass starts from is any state,
  in particular one that earlier passes have left.
\<close>

theorem development_adds_png_once:
  assumes "cfg = cfg_in_use dirs cfg0"
      and "loaded = config (load_phase env cfg log_to_file print_intro_fn w)"
      and "final = config (state_after (update_config env dirs cfg0 log_to_file print_intro_fn w))"
  shows "(development final \<and> ''png'' \<notin> set (export_plot_formats loaded) \<longrightarrow>
            export_plot_formats final = export_plot_formats loaded @ [''png''] \<and>
            count_list (export_plot_formats final) ''png'' = 1) \<and>
         (''png'' \<in> set (export_plot_formats loaded) \<longrightarrow>
            export_plot_formats final = export_plot_formats loaded) \<and>
         count_list (export_plot_formats final) ''png'' \<le>
           max 1 (count_list (export_plot_formats loaded) ''png'')"
  unfolding assms by (simp add: pass_fields count_list_0_iff)

theorem development_adds_png_once_witness:
  "development (config (state_after (update_config example_env [PathArg ''data'']
     (Some development_cfg) False None example_state))) \<and>
   export_plot_formats (config (load_phase example_env development_cfg False None
     example_state)) = [''pdf'', ''svg''] \<and>
   export_plot_formats (config (state_after (update_config example_env [PathArg ''data'']
     (Some development_cfg) False None example_state))) = [''pdf'', ''svg'', ''png''] \<and>
   count_list (export_plot_formats (config (state_after (update_config example_env
     [PathArg ''data''] (Some development_cfg) False None example_state)))) ''png'' = 1"
proof -
  have mode: "development (config (state_after (update_config example_env [PathArg ''data'']
      (Some development_cfg) False None example_state)))"
    by (simp add: pass_fields development_cfg_def ClConfig_init_def)
  have before: "export_plot_formats (config (load_phase example_env development_cfg False None
      example_state)) = [''pdf'', ''svg'']"
    by (simp add: load_phase_leaves example_loaded reset_logger_fields example_config_def)
  from development_adds_png_once [OF refl refl refl, of example_env "[PathArg ''data'']"
      "Some development_cfg" False None example_state]
  show ?thesis using mode before by simp
qed

subsection \<open>C9: the order of the hooks\<close>

text \<open>
  C9. The calls that a pass makes, after those made before it, are in this order:
  \<open>load_defaults\<close>, \<open>init_log\<close>, the introduction if there is one, the hook
  \<open>before_config\<close>, \<open>find_user_files\<close>, the files of \<open>explicit_user_config_files\<close>, the
  files of the record, the command line configuration if there is any, the sample name
  files and, when the pass returns, the hooks \<open>config_loaded\<close> and \<open>execution_start\<close>.
  The hook \<open>before_config\<close> finds the defaults with only \<open>quiet\<close>, \<open>no_ansi\<close> and
  \<open>verbose\<close> of the record applied; the two last hooks find the configuration that the
  pass leaves. A pass that raises has triggered \<open>before_config\<close> only.
\<close>

theorem hooks_in_order:
  assumes "cfg = cfg_in_use dirs cfg0"
      and "r = update_config env dirs cfg0 log_to_file print_intro_fn w"
      and "at_hook = reset_logger cfg (load_defaults env (config w))"
      and "found = find_user_files env (at_hook\<lparr>loaded_user_files := {}\<rparr>)"
  shows "calls (state_after r) =
           calls w @
           [LoadDefaults, InitLog log_to_file] @
           (case print_intro_fn of None \<Rightarrow> [] | Some _ \<Rightarrow> [PrintIntro]) @
           [Trigger ''before_config'' at_hook, FindUserFiles] @
           map (\<lambda>p. LoadConfigFile p None) (explicit_user_config_files found) @
           map (\<lambda>p. LoadConfigFile p (Some False)) (ClConfig.config_files cfg) @
           (if ClConfig.cl_config cfg \<noteq> [] then [LoadClConfig (ClConfig.cl_config cfg)] else []) @
           (case ClConfig.replace_names cfg of
              None \<Rightarrow> [] | Some p \<Rightarrow> if p \<noteq> [] then [LoadReplaceNames p] else []) @
           (case ClConfig.sample_names cfg of
              None \<Rightarrow> [] | Some p \<Rightarrow> if p \<noteq> [] then [LoadSampleNames p] else []) @
           [LoadShowHide (show_hide_file cfg)] @
           (if raised r then []
            else [Trigger ''config_loaded'' (config (state_after r)),
                  Trigger ''execution_start'' (config (state_after r))])"
  unfolding assms
  by (simp add: calls_update_config raised_update_config config_update_config load_calls_def
      sample_calls_def optional_call_def config_at_hook_def config_found_def given_def
      truthy_def nonempty_def split: option.split)

theorem hooks_in_order_witness:
  "calls (state_after (update_config example_env [PathArg ''data''] (Some ignore_cfg) False
     None example_state)) =
     [LoadDefaults, InitLog False,
      Trigger ''before_config'' (reset_logger ignore_cfg example_config),
      FindUserFiles, LoadShowHide None,
      Trigger ''config_loaded'' (config (state_after (update_config example_env
        [PathArg ''data''] (Some ignore_cfg) False None example_state))),
      Trigger ''execution_start'' (config (state_after (update_config example_env
        [PathArg ''data''] (Some ignore_cfg) False None example_state)))]"
proof -
  have returns: "\<not> raised (update_config example_env [PathArg ''data''] (Some ignore_cfg)
      False None example_state)"
    by (simp add: raised_update_config too_many_dirs_def ignore_cfg_def ClConfig_init_def)
  have fields:
    "ClConfig.config_files ignore_cfg = []" "ClConfig.cl_config ignore_cfg = []"
    "ClConfig.replace_names ignore_cfg = None" "ClConfig.sample_names ignore_cfg = None"
    "show_hide_file ignore_cfg = None"
    by (simp_all add: ignore_cfg_def ClConfig_init_def show_hide_file_def)
  have start: "calls example_state = []" "config example_state = example_config"
    by (simp_all add: example_state_def)
  have env:
    "load_defaults example_env = (\<lambda>_. example_config)" "find_user_files example_env = (\<lambda>c. c)"
    by (simp_all add: example_env_def)
  have none: "explicit_user_config_files (reset_logger ignore_cfg example_config) = []"
    by (simp add: reset_logger_fields example_config_def)
  from hooks_in_order [OF refl refl refl refl, of example_env "[PathArg ''data'']"
      "Some ignore_cfg" False None example_state]
  show ?thesis using returns fields start env none by simp
qed

subsection \<open>C10: \<open>dirs_depth\<close>\<close>

text \<open>
  C10. When \<open>dirs_depth\<close> is set in the override record, the configuration after the
  pass has \<open>prepend_dirs\<close> true and \<open>prepend_dirs_depth\<close> equal to the value of
  \<open>dirs_depth\<close>, whatever the record says about \<open>prepend_dirs\<close>: lines 142 to 144 run
  after lines 139 to 141.
\<close>

theorem dirs_depth_forces_prepend_dirs:
  assumes "ClConfig.dirs_depth (cfg_in_use dirs cfg0) = Some depth"
  shows "prepend_dirs (config (state_after
           (update_config env dirs cfg0 log_to_file print_intro_fn w))) \<and>
         prepend_dirs_depth (config (state_after
           (update_config env dirs cfg0 log_to_file print_intro_fn w))) = depth"
  using assms by (simp add: pass_fields)

text \<open>The record of the example sets \<open>prepend_dirs\<close> to \<open>False\<close> and \<open>dirs_depth\<close> to 2.\<close>

theorem dirs_depth_forces_prepend_dirs_witness:
  "ClConfig.prepend_dirs depth_cfg = Some False \<and>
   ClConfig.dirs_depth (cfg_in_use [PathArg ''data''] (Some depth_cfg)) = Some 2 \<and>
   prepend_dirs (config (state_after
     (update_config example_env [PathArg ''data''] (Some depth_cfg) False None example_state))) \<and>
   prepend_dirs_depth (config (state_after
     (update_config example_env [PathArg ''data''] (Some depth_cfg) False None example_state))) = 2"
proof -
  have set: "ClConfig.dirs_depth (cfg_in_use [PathArg ''data''] (Some depth_cfg)) = Some 2"
    by (simp add: depth_cfg_def ClConfig_init_def)
  have unset: "ClConfig.prepend_dirs depth_cfg = Some False"
    by (simp add: depth_cfg_def ClConfig_init_def)
  from dirs_depth_forces_prepend_dirs [OF set, of example_env False None example_state]
  show ?thesis using set unset by simp
qed

end
